theory Spec2Isabelle
  imports Main
begin

section \<open>The runtime the sources are written against\<close>

text \<open>
  The repository is written with the Effect library: every operation is a description of a
  computation that ends in a success, in a typed failure (the error channel), or in a defect
  (an untyped crash, \<open>Effect.die\<close>, the rejection of an \<open>Effect.promise\<close>, an exception
  thrown inside \<open>Effect.gen\<close>). The embedding is state passing: an effect is a function from
  the state to an exit and the new state. A third exit, \<open>Suspended\<close>, stands for an
  effect that has not completed (a promise that never settles, a semaphore with no permit,
  a sleep that a timeout cuts short): every combinator passes it on, and only
  \<open>Effect.timeout\<close> turns it into a failure. A call to the outside that answers is taken
  to answer at once: the virtual clock is advanced only by the waits of the program itself
  and by the timeouts that fire.
\<close>

datatype err =
    NoMoreRecords
  | TimeoutException
  | PrismaError string
  | ScrapeWebsiteError string
  | SyncCrmError string
  | JsError string

datatype cause = Fail err | Die string

datatype 'a exit = Success 'a | Failure cause | Suspended

datatype 'a promise = Resolves 'a | Rejects string | Pending

type_synonym ('s, 'a) effect = "'s \<Rightarrow> 'a exit \<times> 's"

definition succeed :: "'a \<Rightarrow> ('s, 'a) effect" where
  "succeed a s = (Success a, s)"

definition fail :: "err \<Rightarrow> ('s, 'a) effect" where
  "fail e s = (Failure (Fail e), s)"

definition die :: "string \<Rightarrow> ('s, 'a) effect" where
  "die m s = (Failure (Die m), s)"

definition flatMap :: "('s, 'a) effect \<Rightarrow> ('a \<Rightarrow> ('s, 'b) effect) \<Rightarrow> ('s, 'b) effect" where
  "flatMap m f s =
     (case m s of
        (Success a, s') \<Rightarrow> f a s'
      | (Failure c, s') \<Rightarrow> (Failure c, s')
      | (Suspended, s') \<Rightarrow> (Suspended, s'))"

definition mapE :: "('a \<Rightarrow> 'b) \<Rightarrow> ('s, 'a) effect \<Rightarrow> ('s, 'b) effect" where
  "mapE f m = flatMap m (\<lambda>a. succeed (f a))"

text \<open>\<open>Effect.catchAll\<close> handles typed failures only; a defect passes through it.\<close>

definition catchAll :: "('s, 'a) effect \<Rightarrow> (err \<Rightarrow> ('s, 'a) effect) \<Rightarrow> ('s, 'a) effect" where
  "catchAll m h s =
     (case m s of
        (Failure (Fail e), s') \<Rightarrow> h e s'
      | (r, s') \<Rightarrow> (r, s'))"

text \<open>\<open>Effect.catchTag\<close> handles the typed failures of one tag; the tag is given as the error
  itself, for the two tags without fields that the sources catch.\<close>

definition catchTag :: "err \<Rightarrow> ('s, 'a) effect \<Rightarrow> ('s, 'a) effect \<Rightarrow> ('s, 'a) effect" where
  "catchTag tag m h s =
     (case m s of
        (Failure (Fail e), s') \<Rightarrow> (if e = tag then h s' else (Failure (Fail e), s'))
      | (r, s') \<Rightarrow> (r, s'))"

definition mapError :: "(err \<Rightarrow> err) \<Rightarrow> ('s, 'a) effect \<Rightarrow> ('s, 'a) effect" where
  "mapError f m s =
     (case m s of
        (Failure (Fail e), s') \<Rightarrow> (Failure (Fail (f e)), s')
      | (r, s') \<Rightarrow> (r, s'))"

definition tapError :: "(err \<Rightarrow> ('s, unit) effect) \<Rightarrow> ('s, 'a) effect \<Rightarrow> ('s, 'a) effect" where
  "tapError f m s =
     (case m s of
        (Failure (Fail e), s') \<Rightarrow>
          (case f e s' of
             (Success _, s'') \<Rightarrow> (Failure (Fail e), s'')
           | (Failure c, s'') \<Rightarrow> (Failure c, s'')
           | (Suspended, s'') \<Rightarrow> (Suspended, s''))
      | (r, s') \<Rightarrow> (r, s'))"

fun message :: "err \<Rightarrow> string" where
  "message NoMoreRecords = ''NoMoreRecords''"
| "message TimeoutException = ''TimeoutException''"
| "message (PrismaError m) = m"
| "message (ScrapeWebsiteError m) = m"
| "message (SyncCrmError m) = m"
| "message (JsError m) = m"

text \<open>\<open>Effect.orDie\<close>: a typed failure becomes a defect.\<close>

definition orDie :: "('s, 'a) effect \<Rightarrow> ('s, 'a) effect" where
  "orDie m s =
     (case m s of
        (Failure (Fail e), s') \<Rightarrow> (Failure (Die (message e)), s')
      | (r, s') \<Rightarrow> (r, s'))"

text \<open>\<open>Effect.ignore\<close>: success and typed failure both become a success without a value.\<close>

definition ignore :: "('s, 'a) effect \<Rightarrow> ('s, unit) effect" where
  "ignore m s =
     (case m s of
        (Success _, s') \<Rightarrow> (Success (), s')
      | (Failure (Fail e), s') \<Rightarrow> (Success (), s')
      | (Failure (Die d), s') \<Rightarrow> (Failure (Die d), s')
      | (Suspended, s') \<Rightarrow> (Suspended, s'))"

text \<open>\<open>Effect.promise\<close> treats a rejection as a defect; \<open>Effect.tryPromise\<close> maps it into the
  error channel with the \<open>catch\<close> function it is given.\<close>

definition promise :: "'a promise \<Rightarrow> ('s, 'a) effect" where
  "promise p s =
     (case p of
        Resolves a \<Rightarrow> (Success a, s)
      | Rejects m \<Rightarrow> (Failure (Die m), s)
      | Pending \<Rightarrow> (Suspended, s))"

definition tryPromise :: "'a promise \<Rightarrow> (string \<Rightarrow> err) \<Rightarrow> ('s, 'a) effect" where
  "tryPromise p catch s =
     (case p of
        Resolves a \<Rightarrow> (Success a, s)
      | Rejects m \<Rightarrow> (Failure (Fail (catch m)), s)
      | Pending \<Rightarrow> (Suspended, s))"

subsection \<open>Schedules and retry\<close>

text \<open>
  The schedules of the sources are finite: a schedule is the list of the delays before each
  recurrence. \<open>Schedule.recurs(n)\<close> recurs \<open>n\<close> times without delay;
  \<open>Schedule.exponential(base)\<close> intersected with \<open>Schedule.recurs(n)\<close> recurs \<open>n\<close> times, the
  \<open>i\<close>-th recurrence after \<open>base * 2 ^ i\<close> (the longer of the two delays).
  \<open>Effect.retry\<close> runs the effect again on a typed failure while the schedule recurs, and
  gives the last failure once it is exhausted; a defect is not retried. The body is given
  the number of the attempt, from 1, as \<open>Activity.retry\<close> provides it.
\<close>

type_synonym schedule = "nat list"

definition recurs :: "nat \<Rightarrow> schedule" where
  "recurs n = replicate n 0"

definition exponential_recurs :: "nat \<Rightarrow> nat \<Rightarrow> schedule" where
  "exponential_recurs base n = map (\<lambda>i. base * 2 ^ i) [0..<n]"

fun retryLoop ::
  "(nat \<Rightarrow> 's \<Rightarrow> 's) \<Rightarrow> schedule \<Rightarrow> nat \<Rightarrow> (nat \<Rightarrow> ('s, 'a) effect) \<Rightarrow> ('s, 'a) effect" where
  "retryLoop wait [] n body s = body n s"
| "retryLoop wait (d # ds) n body s =
     (case body n s of
        (Failure (Fail e), s') \<Rightarrow> retryLoop wait ds (Suc n) body (wait d s')
      | (r, s') \<Rightarrow> (r, s'))"

definition retry :: "(nat \<Rightarrow> 's \<Rightarrow> 's) \<Rightarrow> schedule \<Rightarrow> ('s, 'a) effect \<Rightarrow> ('s, 'a) effect" where
  "retry wait sched m = retryLoop wait sched 1 (\<lambda>_. m)"

definition noWait :: "nat \<Rightarrow> 's \<Rightarrow> 's" where
  "noWait d s = s"

subsection \<open>Scopes\<close>

text \<open>
  A scope is the list of the finalizers registered in it, the latest first. A scoped effect
  runs on the pair of the scope and the state. \<open>Effect.acquireRelease\<close> registers the release
  of the value once the acquisition has succeeded; \<open>Effect.scoped\<close> runs the body in a fresh
  scope and, when the body exits, runs every finalizer, the latest first, each of them whatever
  the others did. A body that has not completed leaves its scope open; how a timeout closes
  the scope of an effect that it cuts short is part of \<open>scoped_timed\<close>, with the
  deadlines of the world.
\<close>

type_synonym 's finalizer = "('s, unit) effect"

type_synonym 's scoped = "'s finalizer list \<times> 's"

definition liftS :: "('s, 'a) effect \<Rightarrow> ('s scoped, 'a) effect" where
  "liftS m = (\<lambda>(fs, s). case m s of (r, s') \<Rightarrow> (r, (fs, s')))"

definition acquireRelease ::
  "('s, 'a) effect \<Rightarrow> ('a \<Rightarrow> 's finalizer) \<Rightarrow> ('s scoped, 'a) effect" where
  "acquireRelease acquire release = (\<lambda>(fs, s).
     case acquire s of
       (Success a, s') \<Rightarrow> (Success a, (release a # fs, s'))
     | (r, s') \<Rightarrow> (r, (fs, s')))"

text \<open>The exit of a scope: the body's failure if it failed, else the first failure of a
  finalizer, else the body's value.\<close>

fun closeScope :: "'s finalizer list \<Rightarrow> 'a exit \<Rightarrow> ('s, 'a) effect" where
  "closeScope [] r s = (r, s)"
| "closeScope (f # fs) r s =
     (case f s of
        (Success _, s') \<Rightarrow> closeScope fs r s'
      | (Failure c, s') \<Rightarrow> closeScope fs (case r of Success _ \<Rightarrow> Failure c | _ \<Rightarrow> r) s'
      | (Suspended, s') \<Rightarrow> (Suspended, s'))"

definition scoped :: "('s scoped, 'a) effect \<Rightarrow> ('s, 'a) effect" where
  "scoped m s =
     (case m ([], s) of
        (Suspended, (fs, s')) \<Rightarrow> (Suspended, s')
      | (r, (fs, s')) \<Rightarrow> closeScope fs r s')"

section \<open>Idempotency keys of the three workflow definitions\<close>

text \<open>
  The payloads of \<open>PlaceWebsiteScraperWorkflow\<close>, \<open>SyncCrmplaceDetailWorkflow\<close> and
  \<open>PlacesLocatorWorkflow\<close>, as their \<open>Workflow.make\<close> declares them. The key functions of the
  first two read the clock: the string that \<open>new Date().toISOString()\<close> returns when the key
  is computed is the first argument of the model.
\<close>

record scraper_payload =
  sp_id :: string
  sp_name :: "string option"
  sp_url :: string
  sp_address :: "string option"
  sp_phone :: "string option"
  sp_location :: string

record crm_payload =
  cp_id :: string

record locator_payload =
  lp_id :: string
  lp_url :: string
  lp_location :: string

definition PlaceWebsiteScraperWorkflow_idempotencyKey :: "string \<Rightarrow> scraper_payload \<Rightarrow> string" where
  "PlaceWebsiteScraperWorkflow_idempotencyKey now p = sp_id p @ ''-'' @ now"

definition SyncCrmplaceDetailWorkflow_idempotencyKey :: "string \<Rightarrow> crm_payload \<Rightarrow> string" where
  "SyncCrmplaceDetailWorkflow_idempotencyKey now p = cp_id p @ ''-'' @ now"

definition PlacesLocatorWorkflow_idempotencyKey :: "locator_payload \<Rightarrow> string" where
  "PlacesLocatorWorkflow_idempotencyKey p = lp_id p"

datatype workflow_request =
    PlaceWebsiteScraperWorkflow scraper_payload
  | SyncCrmplaceDetailWorkflow crm_payload
  | PlacesLocatorWorkflow locator_payload

fun idempotencyKey :: "string \<Rightarrow> workflow_request \<Rightarrow> string" where
  "idempotencyKey now (PlaceWebsiteScraperWorkflow p) = PlaceWebsiteScraperWorkflow_idempotencyKey now p"
| "idempotencyKey now (SyncCrmplaceDetailWorkflow p) = SyncCrmplaceDetailWorkflow_idempotencyKey now p"
| "idempotencyKey now (PlacesLocatorWorkflow p) = PlacesLocatorWorkflow_idempotencyKey p"

section \<open>The browser pool (services/browser.ts)\<close>

text \<open>
  The state of one service: the free permits of its semaphore, the number of calls made so
  far to create a sub-resource (the \<open>k\<close>-th call creates the sub-resource \<open>k\<close>), the
  sub-resources that are open, and the sub-resources closed so far in the order of closing
  (one closed twice is listed twice). What the browser answers is the environment: the
  outcome of the \<open>k\<close>-th \<open>browser.newContext\<close> and of \<open>c.close()\<close>; of the \<open>k\<close>-th
  \<open>startBrowserAgent\<close> and of \<open>c.stop()\<close>, which may depend on whether the agent has been
  stopped before. The options passed to \<open>browser.newContext\<close> are not modelled.
\<close>

record pool =
  permits :: nat
  created :: nat
  live :: "nat list"
  closed :: "nat list"

record browser_env =
  newContext :: "nat \<Rightarrow> unit promise"
  contextClose :: "nat \<Rightarrow> unit promise"

record agent_env =
  startBrowserAgent :: "nat \<Rightarrow> unit promise"
  agentStop :: "nat \<Rightarrow> bool \<Rightarrow> unit promise"

text \<open>\<open>Effect.makeSemaphore(10)\<close>, no sub-resource yet.\<close>

definition makePool :: pool where
  "makePool = \<lparr>permits = 10, created = 0, live = [], closed = []\<rparr>"

text \<open>
  \<open>semaphore.withPermits(n)(self)\<close> takes \<open>n\<close> permits, suspending while fewer are free, runs
  \<open>self\<close>, and gives the permits back as soon as \<open>self\<close> has exited, with a success or a
  failure.
\<close>

definition withPermits ::
  "nat \<Rightarrow> ('p pool_scheme scoped, 'a) effect \<Rightarrow> ('p pool_scheme scoped, 'a) effect" where
  "withPermits n self = (\<lambda>(fs, p).
     if permits p < n then (Suspended, (fs, p))
     else
       (case self (fs, p\<lparr>permits := permits p - n\<rparr>) of
          (Suspended, (fs', p')) \<Rightarrow> (Suspended, (fs', p'))
        | (r, (fs', p')) \<Rightarrow> (r, (fs', p'\<lparr>permits := permits p' + n\<rparr>))))"

definition created_next :: "('p pool_scheme, nat) effect" where
  "created_next p = (Success (Suc (created p)), p\<lparr>created := Suc (created p)\<rparr>)"

definition opened :: "nat \<Rightarrow> ('p pool_scheme, nat) effect" where
  "opened k p = (Success k, p\<lparr>live := live p @ [k]\<rparr>)"

definition shut :: "nat \<Rightarrow> ('p pool_scheme, unit) effect" where
  "shut c p = (Success (), p\<lparr>live := removeAll c (live p), closed := closed p @ [c]\<rparr>)"

text \<open>\<open>Effect.promise(() => browser.newContext(browserContext))\<close> and
  \<open>Effect.promise(() => c.close())\<close>, with their effect on the state.\<close>

definition browser_newContext :: "browser_env \<Rightarrow> ('p pool_scheme, nat) effect" where
  "browser_newContext env =
     flatMap created_next (\<lambda>k. flatMap (promise (newContext env k)) (\<lambda>_. opened k))"

definition context_close :: "browser_env \<Rightarrow> nat \<Rightarrow> ('p pool_scheme, unit) effect" where
  "context_close env c = flatMap (promise (contextClose env c)) (\<lambda>_. shut c)"

text \<open>The release of a context (browser.ts, lines 39 to 46): the optional \<open>onBeforeClose\<close>
  callback, then \<open>c.close()\<close>, the whole under \<open>Effect.orDie\<close>.\<close>

definition releaseContext ::
  "browser_env \<Rightarrow> (nat \<Rightarrow> ('p pool_scheme, unit) effect) option \<Rightarrow> nat \<Rightarrow> 'p pool_scheme finalizer" where
  "releaseContext env onBeforeClose c =
     orDie (flatMap (case onBeforeClose of Some hook \<Rightarrow> hook c | None \<Rightarrow> succeed ())
                    (\<lambda>_. context_close env c))"

definition getContext ::
  "browser_env \<Rightarrow> (nat \<Rightarrow> ('p pool_scheme, unit) effect) option \<Rightarrow> ('p pool_scheme scoped, nat) effect" where
  "getContext env onBeforeClose =
     retry noWait (recurs 2)
       (withPermits 1
          (acquireRelease (browser_newContext env) (releaseContext env onBeforeClose)))"

text \<open>\<open>BrowserAgentService.getBrowserAgent\<close>: the same shape, with \<open>startBrowserAgent\<close> and
  \<open>c.stop()\<close>.\<close>

definition agent_start :: "agent_env \<Rightarrow> ('p pool_scheme, nat) effect" where
  "agent_start env =
     flatMap created_next (\<lambda>k. flatMap (promise (startBrowserAgent env k)) (\<lambda>_. opened k))"

definition agent_stop :: "agent_env \<Rightarrow> nat \<Rightarrow> 'p pool_scheme \<Rightarrow> unit promise" where
  "agent_stop env c p = agentStop env c (c \<in> set (closed p))"

definition releaseAgent :: "agent_env \<Rightarrow> nat \<Rightarrow> 'p pool_scheme finalizer" where
  "releaseAgent env c =
     orDie (\<lambda>p. flatMap (promise (agent_stop env c p)) (\<lambda>_. shut c) p)"

definition getBrowserAgent :: "agent_env \<Rightarrow> ('p pool_scheme scoped, nat) effect" where
  "getBrowserAgent env =
     retry noWait (recurs 2)
       (withPermits 1 (acquireRelease (agent_start env) (releaseAgent env)))"

text \<open>The callback the two activities pass as \<open>onBeforeClose\<close>: save the storage state
  of the context, ignoring a failure of the save. The outcome of \<open>context.storageState\<close> is
  the environment.\<close>

definition saveStorageState :: "(nat \<Rightarrow> unit promise) \<Rightarrow> nat \<Rightarrow> ('s, unit) effect" where
  "saveStorageState storageState context =
     ignore (tryPromise (storageState context)
               (\<lambda>error. JsError (''Failed to save storage state: '' @ error)))"

text \<open>A consumer that opens \<open>n\<close> contexts one after the other in one scope and keeps them
  all until the scope closes.\<close>

fun getContexts ::
  "browser_env \<Rightarrow> (nat \<Rightarrow> ('p pool_scheme, unit) effect) option \<Rightarrow> nat \<Rightarrow> ('p pool_scheme scoped, nat list) effect" where
  "getContexts env onBeforeClose 0 = succeed []"
| "getContexts env onBeforeClose (Suc n) =
     flatMap (getContext env onBeforeClose)
       (\<lambda>c. mapE (\<lambda>cs. c # cs) (getContexts env onBeforeClose n))"

text \<open>A browser that creates and closes every context it is asked for, and one that rejects
  every creation.\<close>

definition browser_ok :: browser_env where
  "browser_ok = \<lparr>newContext = (\<lambda>k. Resolves ()), contextClose = (\<lambda>c. Resolves ())\<rparr>"

definition browser_down :: browser_env where
  "browser_down = \<lparr>newContext = (\<lambda>k. Rejects ''browser has been closed''), contextClose = (\<lambda>c. Resolves ())\<rparr>"

definition agents_down :: agent_env where
  "agents_down = \<lparr>startBrowserAgent = (\<lambda>k. Rejects ''browser has been closed''),
                   agentStop = (\<lambda>c stopped. Resolves ())\<rparr>"

section \<open>The store, the metrics and the log\<close>

text \<open>
  The rows of the two tables the runners work on, with the columns the sources read or
  write. \<open>pe_status\<close> is the nullable flag of a place entry: \<open>None\<close> is unclaimed.
  \<open>co_crmSyncEvent\<close> is the optional related event of a company, with its own nullable
  status. The world of a runner process extends the state of its browser service with the
  virtual clock (milliseconds), the deadline of the timeout that the running effect is
  under (\<open>None\<close> under no timeout), the log, the two tables, the counters and the samples
  of the duration histogram. A log entry keeps the level, the text of the message without
  its pictograph, and the numbers interpolated into it; the structured annotations of a log
  call are not kept.
\<close>

record placeEntry =
  pe_id :: string
  pe_name :: "string option"
  pe_url :: string
  pe_address :: "string option"
  pe_telephone :: "string option"
  pe_location :: string
  pe_status :: "bool option"

record company =
  co_id :: string
  co_name :: string
  co_websiteUrl :: string
  co_emailAddress :: "string option"
  co_phoneNumber :: "string option"
  co_address :: "string option"
  co_industry :: "string option"
  co_location :: "string option"
  co_servicesOffered :: "string list"
  co_crmSyncEvent :: "bool option option"

datatype level = LevelInfo | LevelWarning | LevelError | LevelDebug

datatype log_value = Num int | Percent int int | Text string

datatype log_entry = Log level string "log_value list"

datatype counter = RecordsProcessed | RecordsFailed | RecordsSkipped | RecordsTimedOut

record world = pool +
  clock :: nat
  deadline :: "nat option"
  logged :: "log_entry list"
  placeEntries :: "placeEntry list"
  companies :: "company list"
  recordsProcessed :: nat
  recordsFailed :: nat
  recordsSkipped :: nat
  recordsTimedOut :: nat
  processingDuration :: "nat list"

definition logAt :: "level \<Rightarrow> string \<Rightarrow> log_value list \<Rightarrow> (world, unit) effect" where
  "logAt l m vs w = (Success (), w\<lparr>logged := logged w @ [Log l m vs]\<rparr>)"

definition logInfo :: "string \<Rightarrow> (world, unit) effect" where
  "logInfo m = logAt LevelInfo m []"

definition logWarning :: "string \<Rightarrow> (world, unit) effect" where
  "logWarning m = logAt LevelWarning m []"

definition logError :: "string \<Rightarrow> (world, unit) effect" where
  "logError m = logAt LevelError m []"

text \<open>The wait between two tries of a retried query and between two cycles of a reporter.
  The sources run these under no timeout, and \<open>wait\<close> does not look at the deadline.\<close>

definition wait :: "nat \<Rightarrow> world \<Rightarrow> world" where
  "wait d w = w\<lparr>clock := clock w + d\<rparr>"

text \<open>\<open>Effect.sleep(d)\<close>. Under a timeout whose deadline does not come after the end of
  the sleep, the sleep does not complete: the clock stops at the deadline. (Of a sleep and a
  deadline that fall on the same instant, the deadline is taken to come first.)\<close>

definition sleep :: "nat \<Rightarrow> (world, unit) effect" where
  "sleep d w =
     (case deadline w of
        None \<Rightarrow> (Success (), wait d w)
      | Some t \<Rightarrow>
          if clock w + d < t then (Success (), wait d w)
          else (Suspended, w\<lparr>clock := max (clock w) t\<rparr>))"

text \<open>\<open>Date.now()\<close>.\<close>

definition now :: "(world, nat) effect" where
  "now w = (Success (clock w), w)"

text \<open>
  \<open>Effect.timeout(d)\<close>. The effect runs under the deadline \<open>clock + d\<close>, or under the
  deadline of an enclosing timeout if that one does not come later. The effect is cut off
  by the deadline when it has not completed (it sleeps beyond the deadline, or waits for
  something that does not come), and also when the clock shows that it completed at the
  deadline or later. An effect that is cut off is interrupted at the deadline: with
  \<open>TimeoutException\<close> if the deadline is this timeout's own; still not completed, for the
  enclosing timeout to turn into its own failure, if the deadline is the enclosing one.
  What the effect did stays done. An effect that completes before the deadline keeps its
  exit. The deadline that was in force before is in force again afterwards.
\<close>

definition earliest :: "nat option \<Rightarrow> nat \<Rightarrow> nat" where
  "earliest enclosing own = (case enclosing of None \<Rightarrow> own | Some t \<Rightarrow> min t own)"

definition cutOff :: "nat \<Rightarrow> 'a exit \<times> world \<Rightarrow> bool" where
  "cutOff t run = (case run of (Suspended, w') \<Rightarrow> True | (r, w') \<Rightarrow> t \<le> clock w')"

definition timeout :: "nat \<Rightarrow> (world, 'a) effect \<Rightarrow> (world, 'a) effect" where
  "timeout d m w =
     (case m (w\<lparr>deadline := Some (earliest (deadline w) (clock w + d))\<rparr>) of
        (r, w') \<Rightarrow>
          if cutOff (earliest (deadline w) (clock w + d)) (r, w') then
            (case deadline w of
               None \<Rightarrow>
                 (Failure (Fail TimeoutException), w'\<lparr>clock := clock w + d, deadline := None\<rparr>)
             | Some t \<Rightarrow>
                 if clock w + d < t
                 then (Failure (Fail TimeoutException),
                       w'\<lparr>clock := clock w + d, deadline := Some t\<rparr>)
                 else (Suspended, w'\<lparr>clock := max (clock w) t, deadline := Some t\<rparr>))
          else (r, w'\<lparr>deadline := deadline w\<rparr>))"

text \<open>
  \<open>Effect.scoped\<close> on an effect of the world: as \<open>scoped\<close>, and a body that a timeout cuts
  short (it has not completed and a deadline is in force) has its scope closed by the
  interruption: the finalizers run, the latest first, and the effect is still not completed.
  Under no deadline a body that has not completed keeps its scope open.
\<close>

definition scoped_timed :: "(world scoped, 'a) effect \<Rightarrow> (world, 'a) effect" where
  "scoped_timed m w =
     (case m ([], w) of
        (Suspended, (fs, w')) \<Rightarrow>
          (case deadline w' of
             None \<Rightarrow> (Suspended, w')
           | Some t \<Rightarrow> closeScope fs Suspended w')
      | (r, (fs, w')) \<Rightarrow> closeScope fs r w')"

fun increment :: "counter \<Rightarrow> (world, unit) effect" where
  "increment RecordsProcessed w = (Success (), w\<lparr>recordsProcessed := Suc (recordsProcessed w)\<rparr>)"
| "increment RecordsFailed w = (Success (), w\<lparr>recordsFailed := Suc (recordsFailed w)\<rparr>)"
| "increment RecordsSkipped w = (Success (), w\<lparr>recordsSkipped := Suc (recordsSkipped w)\<rparr>)"
| "increment RecordsTimedOut w = (Success (), w\<lparr>recordsTimedOut := Suc (recordsTimedOut w)\<rparr>)"

text \<open>\<open>processingDuration(Effect.succeed(duration))\<close>: one more sample.\<close>

definition recordDuration :: "nat \<Rightarrow> (world, unit) effect" where
  "recordDuration duration w =
     (Success (), w\<lparr>processingDuration := processingDuration w @ [duration]\<rparr>)"

subsection \<open>The store operations the runners and the activity use\<close>

text \<open>
  Only this process writes the store in the model, and a store operation fails only for a
  reason of the data: an update of a row that does not exist, a creation that breaks the
  unique index on the company name. Connection failures are outside the model.
\<close>

definition placeEntry_findFirst_unclaimed :: "(world, placeEntry option) effect" where
  "placeEntry_findFirst_unclaimed w = (Success (find (\<lambda>r. pe_status r = None) (placeEntries w)), w)"

definition placeEntry_update_status :: "string \<Rightarrow> bool option \<Rightarrow> (world, unit) effect" where
  "placeEntry_update_status i st w =
     (if i \<in> set (map pe_id (placeEntries w))
      then (Success (),
            w\<lparr>placeEntries := map (\<lambda>r. if pe_id r = i then r\<lparr>pe_status := st\<rparr> else r) (placeEntries w)\<rparr>)
      else (Failure (Fail (PrismaError ''Record to update not found'')), w))"

definition company_create :: "company \<Rightarrow> (world, company) effect" where
  "company_create c w =
     (if co_name c \<in> set (map co_name (companies w))
      then (Failure (Fail (PrismaError ''Unique constraint failed on the fields: (name)'')), w)
      else (Success c, w\<lparr>companies := companies w @ [c]\<rparr>))"

section \<open>The website scraper runner (runner/websiteScraper.ts)\<close>

text \<open>\<open>Effect.loop\<close>: the state is advanced by \<open>step\<close> alone; the values of the bodies are
  collected. The loop may run forever: the first argument is fuel, and \<open>None\<close> is the answer
  of a loop that is still running when the fuel is used up.\<close>

fun loop ::
  "nat \<Rightarrow> 'z \<Rightarrow> ('z \<Rightarrow> bool) \<Rightarrow> ('z \<Rightarrow> 'z) \<Rightarrow> ('z \<Rightarrow> ('s, 'a) effect) \<Rightarrow> 's \<Rightarrow> 'a list exit option \<times> 's" where
  "loop 0 z while step body s = (None, s)"
| "loop (Suc n) z while step body s =
     (if while z then
        (case body z s of
           (Success a, s') \<Rightarrow>
             (case loop n (step z) while step body s' of
                (Some (Success as), s'') \<Rightarrow> (Some (Success (a # as)), s'')
              | (r, s'') \<Rightarrow> (r, s''))
         | (Failure c, s') \<Rightarrow> (Some (Failure c), s')
         | (Suspended, s') \<Rightarrow> (Some Suspended, s'))
      else (Some (Success []), s))"

record loop_state =
  continue :: bool

definition fetchOnce :: "(world, placeEntry) effect" where
  "fetchOnce =
     flatMap (logInfo ''Checking database for next record...'') (\<lambda>_.
     flatMap placeEntry_findFirst_unclaimed (\<lambda>record.
       case record of
         None \<Rightarrow>
           flatMap (logInfo ''No records found, will retry in 30 seconds...'') (\<lambda>_.
           fail NoMoreRecords)
       | Some r \<Rightarrow> succeed r))"

definition fetchNextRecord :: "(world, placeEntry option) effect" where
  "fetchNextRecord =
     catchTag NoMoreRecords
       (mapE Some (retry wait (exponential_recurs 30000 5) fetchOnce))
       (flatMap (logInfo ''No more records found after retries, stopping...'') (\<lambda>_.
        succeed None))"

definition payloadOf :: "placeEntry \<Rightarrow> scraper_payload" where
  "payloadOf record =
     \<lparr>sp_id = pe_id record, sp_name = pe_name record, sp_url = pe_url record,
      sp_address = pe_address record, sp_phone = pe_telephone record,
      sp_location = pe_location record\<rparr>"

text \<open>The inner block of \<open>processOneRecord\<close> (lines 125 to 169), for the workflow entry
  point \<open>execute\<close>.\<close>

definition runWorkflow ::
  "(scraper_payload \<Rightarrow> (world, unit) effect) \<Rightarrow> placeEntry \<Rightarrow> nat \<Rightarrow> (world, unit) effect" where
  "runWorkflow execute record startTime =
     flatMap (logInfo ''Starting workflow execution...'') (\<lambda>_.
     flatMap
       (catchAll
          (catchTag TimeoutException
             (mapE (\<lambda>_. Some True) (timeout 300000 (execute (payloadOf record))))
             (flatMap (logWarning ''Workflow timeout'') (\<lambda>_.
              flatMap (increment RecordsFailed) (\<lambda>_.
              flatMap (increment RecordsTimedOut) (\<lambda>_.
              succeed None)))))
          (\<lambda>error.
             flatMap (logError ''Workflow error'') (\<lambda>_.
             flatMap (increment RecordsFailed) (\<lambda>_.
             succeed (Some False)))))
       (\<lambda>isCompleted.
     flatMap (logInfo ''Workflow completed'') (\<lambda>_.
     flatMap
       (case isCompleted of
          None \<Rightarrow> succeed ()
        | Some st \<Rightarrow>
            flatMap (logInfo ''Updating database with result...'') (\<lambda>_.
            flatMap (placeEntry_update_status (pe_id record) (Some st)) (\<lambda>_.
            logInfo ''Database updated successfully'')))
       (\<lambda>_.
     flatMap now (\<lambda>t. recordDuration (t - startTime))))))"

definition processOneRecord ::
  "(scraper_payload \<Rightarrow> (world, unit) effect) \<Rightarrow> (world, loop_state) effect" where
  "processOneRecord execute =
     flatMap (logInfo ''Starting new iteration'') (\<lambda>_.
     flatMap now (\<lambda>startTime.
     flatMap fetchNextRecord (\<lambda>record.
       case record of
         None \<Rightarrow> succeed \<lparr>continue = False\<rparr>
       | Some record \<Rightarrow>
           flatMap (increment RecordsProcessed) (\<lambda>_.
           flatMap (logInfo ''Found record to process'') (\<lambda>_.
           flatMap
             (catchAll (runWorkflow execute record startTime)
                (\<lambda>error.
                   flatMap (logError ''Error processing record'') (\<lambda>_.
                   flatMap (increment RecordsFailed) (\<lambda>_.
                   flatMap now (\<lambda>t. recordDuration (t - startTime))))))
             (\<lambda>_.
           flatMap (logInfo ''Record processed successfully'') (\<lambda>_.
           flatMap (sleep 3000) (\<lambda>_.
           succeed \<lparr>continue = True\<rparr>))))))))"

definition logMetrics :: "(world, unit) effect" where
  "logMetrics w =
     (let processed = int (recordsProcessed w);
          failed = int (recordsFailed w);
          timedOut = int (recordsTimedOut w);
          successCount = processed - failed;
          successRate = (if processed > 0 then Percent successCount processed else Text ''N/A'')
      in
        flatMap (logInfo ''==='') (\<lambda>_.
        flatMap (logInfo ''WebScraper Metrics Report'') (\<lambda>_.
        flatMap (logInfo ''==='') (\<lambda>_.
        flatMap (logAt LevelInfo ''Total Processed: '' [Num processed]) (\<lambda>_.
        flatMap (logAt LevelInfo ''Succeeded: '' [Num successCount]) (\<lambda>_.
        flatMap (logAt LevelInfo ''Failed: '' [Num failed]) (\<lambda>_.
        flatMap (logAt LevelInfo ''Timed Out: '' [Num timedOut]) (\<lambda>_.
        flatMap (logAt LevelInfo ''Success Rate: '' [successRate]) (\<lambda>_.
        logInfo ''==='')))))))) w)"

definition mainProcessingLoop ::
  "(scraper_payload \<Rightarrow> (world, unit) effect) \<Rightarrow> nat \<Rightarrow> world \<Rightarrow> unit exit option \<times> world" where
  "mainProcessingLoop execute fuel w =
     (case loop fuel \<lparr>continue = True\<rparr> (\<lambda>state. continue state) (\<lambda>state. state)
             (\<lambda>_. processOneRecord execute) w of
        (Some (Success _), w') \<Rightarrow>
          (case flatMap (logInfo ''All records processed successfully!'') (\<lambda>_. logMetrics) w' of
             (r, w'') \<Rightarrow> (Some r, w''))
      | (Some (Failure c), w') \<Rightarrow> (Some (Failure c), w')
      | (Some Suspended, w') \<Rightarrow> (Some Suspended, w')
      | (None, w') \<Rightarrow> (None, w'))"

text \<open>\<open>Effect.repeat(Schedule.spaced(d))\<close>: the effect is run, and run again \<open>d\<close> after each
  success, for ever; a failure ends the repetition with that failure. The first argument is
  fuel, as for \<open>loop\<close>.\<close>

fun repeatSpaced :: "nat \<Rightarrow> nat \<Rightarrow> (world, unit) effect \<Rightarrow> world \<Rightarrow> unit exit option \<times> world" where
  "repeatSpaced 0 d m w = (None, w)"
| "repeatSpaced (Suc n) d m w =
     (case m w of
        (Success _, w') \<Rightarrow> repeatSpaced n d m (wait d w')
      | (r, w') \<Rightarrow> (Some r, w'))"

text \<open>The periodic reporter (lines 229 to 239): the snapshot repeated every 30 seconds,
  and, around the repetition, the handler of a typed failure.\<close>

definition metricsReporter :: "nat \<Rightarrow> world \<Rightarrow> unit exit option \<times> world" where
  "metricsReporter fuel w =
     (case repeatSpaced fuel 30000 logMetrics w of
        (Some (Failure (Fail error)), w') \<Rightarrow>
          (case logError ''Metrics logging error'' w' of (r, w'') \<Rightarrow> (Some r, w''))
      | (r, w') \<Rightarrow> (r, w'))"

text \<open>A fresh process: the browser service just made, nothing logged, all counters at 0.\<close>

definition startWorld :: "placeEntry list \<Rightarrow> company list \<Rightarrow> world" where
  "startWorld ps cs =
     \<lparr>permits = 10, created = 0, live = [], closed = [],
      clock = 0, deadline = None, logged = [], placeEntries = ps, companies = cs,
      recordsProcessed = 0, recordsFailed = 0, recordsSkipped = 0, recordsTimedOut = 0,
      processingDuration = []\<rparr>"

text \<open>\<open>Effect.never\<close>: an effect that does not complete.\<close>

definition never :: "('s, 'a) effect" where
  "never s = (Suspended, s)"

text \<open>What a workflow run leaves alone when it does not write the backlog table and the
  metrics of the loop itself.\<close>

definition leavesLoopState :: "world \<Rightarrow> world \<Rightarrow> bool" where
  "leavesLoopState s s' \<longleftrightarrow>
     placeEntries s' = placeEntries s \<and> recordsProcessed s' = recordsProcessed s
     \<and> recordsFailed s' = recordsFailed s \<and> recordsSkipped s' = recordsSkipped s
     \<and> recordsTimedOut s' = recordsTimedOut s \<and> processingDuration s' = processingDuration s"

text \<open>
  The state in which an iteration of \<open>processOneRecord\<close> that starts in \<open>w\<close>, under no
  timeout, and finds a record at its first query, invokes the workflow of that record: the
  record counted as processed, the four lines logged so far, and the deadline of the five
  minutes of \<open>Effect.timeout\<close> in force.
\<close>

definition workflowStart :: "world \<Rightarrow> world" where
  "workflowStart w =
     w\<lparr>recordsProcessed := Suc (recordsProcessed w),
       logged := logged w @
         [Log LevelInfo ''Starting new iteration'' [],
          Log LevelInfo ''Checking database for next record...'' [],
          Log LevelInfo ''Found record to process'' [],
          Log LevelInfo ''Starting workflow execution...'' []],
       deadline := Some (clock w + 300000)\<rparr>"

text \<open>The scenario of three unclaimed rows: the workflow succeeds for rows 1 and 2 and does
  not complete for row 3.\<close>

definition row :: "string \<Rightarrow> placeEntry" where
  "row i = \<lparr>pe_id = i, pe_name = Some ''Firm'', pe_url = ''https://firm.example/'' @ i,
            pe_address = None, pe_telephone = None, pe_location = ''London'',
            pe_status = None\<rparr>"

definition scenarioExecute :: "scraper_payload \<Rightarrow> (world, unit) effect" where
  "scenarioExecute p = (if sp_id p = ''3'' then never else succeed ())"

definition scenarioWorld :: world where
  "scenarioWorld = startWorld [row ''1'', row ''2'', row ''3''] []"

section \<open>The activities and the workflow of the website scraper\<close>

text \<open>
  \<open>Activity.retry({ times })\<close> is \<open>Effect.retry({ times })\<close> on the activity, which is given
  the number of the current attempt, from 1: the activity is run, and run again after a
  typed failure, at most \<open>times\<close> more times.
\<close>

definition Activity_retry :: "nat \<Rightarrow> (nat \<Rightarrow> ('s, 'a) effect) \<Rightarrow> ('s, 'a) effect" where
  "Activity_retry retries execute = retryLoop noWait (recurs retries) 1 execute"

text \<open>An activity body instrumented with a counter of its runs, to state how many attempts
  were made.\<close>

definition counted :: "(nat \<Rightarrow> ('s, 'a) effect) \<Rightarrow> nat \<Rightarrow> (nat \<times> 's, 'a) effect" where
  "counted execute attempt = (\<lambda>(n, s). case execute attempt s of (r, s') \<Rightarrow> (r, (Suc n, s')))"

text \<open>
  What the page and the agent answer to the activity is the environment, by attempt: the
  navigation, the extraction, the wait, and the identifier the store gives to a new company.
  The extraction is the object that \<open>agent.extract\<close> resolves to for the schema it is given
  (scrapeWebsite.ts, lines 184 to 190), that is, \<open>extractedData\<close> as the rest of the
  activity reads it; what the agent does with the schema, its defaults and its list of legal
  tags, is the agent's part, and a result that the agent refuses is a rejection of the call.
  The schema types \<open>telephoneNumber\<close> as a string, but its default is \<open>payload.phone\<close>,
  which may be null: the field is optional in the model, and \<open>None\<close> is a null.
\<close>

record extracted =
  ex_emailAddress :: "string option"
  ex_telephoneNumber :: "string option"
  ex_address :: "string option"
  ex_servicesOffered :: "string list"

record scraper_env =
  agents :: agent_env
  pageGoto :: "string \<Rightarrow> nat \<Rightarrow> unit promise"
  agentExtract :: "nat \<Rightarrow> extracted promise"
  pageWaitForTimeout :: "nat \<Rightarrow> unit promise"
  newId :: "nat \<Rightarrow> string"

definition errorHandler_catch :: "err \<Rightarrow> err" where
  "errorHandler_catch error = ScrapeWebsiteError (message error)"

definition rejected :: "string \<Rightarrow> err" where
  "rejected m = errorHandler_catch (JsError m)"

text \<open>\<open>String.prototype.includes\<close>.\<close>

fun startsWith :: "string \<Rightarrow> string \<Rightarrow> bool" where
  "startsWith s [] = True"
| "startsWith [] (c # cs) = False"
| "startsWith (x # xs) (c # cs) = (x = c \<and> startsWith xs cs)"

fun string_includes :: "string \<Rightarrow> string \<Rightarrow> bool" where
  "string_includes [] sub = (sub = [])"
| "string_includes (x # xs) sub = (startsWith (x # xs) sub \<or> string_includes xs sub)"

text \<open>\<open>[...new Set(xs)]\<close>: the elements of \<open>xs\<close> without repetition, each at the place of
  its first occurrence.\<close>

definition newSet :: "'a list \<Rightarrow> 'a list" where
  "newSet xs = rev (remdups (rev xs))"

definition companyOf :: "scraper_env \<Rightarrow> scraper_payload \<Rightarrow> extracted \<Rightarrow> world \<Rightarrow> company" where
  "companyOf env payload extractedData w =
     \<lparr>co_id = newId env (length (companies w)),
      co_name = (case sp_name payload of None \<Rightarrow> ''Default Name'' | Some n \<Rightarrow> n),
      co_websiteUrl = sp_url payload,
      co_emailAddress = ex_emailAddress extractedData,
      co_phoneNumber = ex_telephoneNumber extractedData,
      co_address = ex_address extractedData,
      co_industry = Some ''Legal'',
      co_location = Some (sp_location payload),
      co_servicesOffered = newSet (ex_servicesOffered extractedData),
      co_crmSyncEvent = None\<rparr>"

text \<open>
  The body of the \<open>ScrapeWebsite\<close> activity (scrapeWebsite.ts, lines 160 to 259), one
  attempt. The test of line 211 reads \<open>extractedData\<close> as the extraction returned it, the
  list of services first; reading \<open>includes\<close> of a null telephone number throws, which is a
  defect.
\<close>

definition scrapeWebsite_execute ::
  "scraper_env \<Rightarrow> scraper_payload \<Rightarrow> nat \<Rightarrow> (world, extracted option) effect" where
  "scrapeWebsite_execute env payload attempt =
     mapError errorHandler_catch (scoped_timed (
       flatMap (liftS (logInfo ''payload'')) (\<lambda>_.
       flatMap (getBrowserAgent (agents env)) (\<lambda>agent.
       flatMap (liftS (tryPromise (pageGoto env (sp_url payload) attempt) rejected)) (\<lambda>_.
       flatMap (liftS (timeout 180000 (tryPromise (agentExtract env attempt) rejected))) (\<lambda>extractedData.
       flatMap (liftS (tryPromise (pageWaitForTimeout env attempt) rejected)) (\<lambda>_.
       flatMap (liftS (\<lambda>w. flatMap (tryPromise (agent_stop (agents env) agent w) rejected)
                               (\<lambda>_. shut agent) w)) (\<lambda>_.
       flatMap (liftS (logInfo ''extractedData'')) (\<lambda>_.
         if ex_servicesOffered extractedData = [] then succeed None
         else
           (case ex_telephoneNumber extractedData of
              None \<Rightarrow> die ''TypeError: Cannot read properties of null (reading includes)''
            | Some telephoneNumber \<Rightarrow>
                if string_includes telephoneNumber ''+1'' then succeed None
                else
                  flatMap (liftS (\<lambda>w.
                     tapError (\<lambda>error. logError (message error))
                       (mapError errorHandler_catch
                          (company_create (companyOf env payload extractedData w))) w)) (\<lambda>_.
                  flatMap (liftS (logInfo ''Scrape website completed successfully'')) (\<lambda>_.
                  succeed (Some extractedData)))))))))))))"

text \<open>
  The activity with its retry, and the workflow that runs it. The compensation attached to
  the activity only logs, and runs only if the workflow fails after the activity has
  succeeded; what follows the activity in the workflow is one log call, which does not
  fail, so the compensation is not part of the model. The body of the \<open>syncCrm\<close> activity
  is page automation and is a parameter.
\<close>

definition scrapeWebsite :: "scraper_env \<Rightarrow> scraper_payload \<Rightarrow> (world, extracted option) effect" where
  "scrapeWebsite env payload = Activity_retry 1 (scrapeWebsite_execute env payload)"

definition syncCrm :: "(nat \<Rightarrow> ('s, unit) effect) \<Rightarrow> ('s, unit) effect" where
  "syncCrm execute = Activity_retry 3 execute"

definition PlaceWebsiteScraperWorkflow_execute :: "scraper_env \<Rightarrow> scraper_payload \<Rightarrow> (world, unit) effect" where
  "PlaceWebsiteScraperWorkflow_execute env payload =
     flatMap (scrapeWebsite env payload) (\<lambda>_. logInfo ''payload, executionId'')"

text \<open>An agent and a page that always answer, with an extraction that finds no service;
  the same with an extraction that finds a service and a telephone number with the prefix
  \<open>+1\<close>; a page whose navigation is always rejected; and an agent whose extraction
  never answers.\<close>

definition agents_ok :: agent_env where
  "agents_ok = \<lparr>startBrowserAgent = (\<lambda>k. Resolves ()), agentStop = (\<lambda>c stopped. Resolves ())\<rparr>"

definition noServices :: scraper_env where
  "noServices =
     \<lparr>agents = agents_ok,
      pageGoto = (\<lambda>url attempt. Resolves ()),
      agentExtract = (\<lambda>attempt. Resolves \<lparr>ex_emailAddress = Some ''office@firm.example'',
                                           ex_telephoneNumber = Some ''020 7946 0000'',
                                           ex_address = Some ''1 High Street, London'',
                                           ex_servicesOffered = []\<rparr>),
      pageWaitForTimeout = (\<lambda>attempt. Resolves ()),
      newId = (\<lambda>n. ''company'')\<rparr>"


definition unreachable :: scraper_env where
  "unreachable = noServices\<lparr>pageGoto := (\<lambda>url attempt. Rejects ''net::ERR_NAME_NOT_RESOLVED'')\<rparr>"

definition hanging :: scraper_env where
  "hanging = noServices\<lparr>agentExtract := (\<lambda>attempt. Pending)\<rparr>"

section \<open>The CRM sync runner\<close>

text \<open>
  The second runner has the same shape as the first, on the companies: its functions carry
  the prefix \<open>crm\<close> here, where the source uses the same names in its own file. A company
  is eligible when it has no sync event and has an email address. A company that an event
  refers to cannot be deleted (the foreign key restricts it), and a company has at most one
  event.
\<close>

definition company_findFirst_unsynced :: "(world, company option) effect" where
  "company_findFirst_unsynced w =
     (Success (find (\<lambda>c. co_crmSyncEvent c = None \<and> co_emailAddress c \<noteq> None) (companies w)), w)"

definition company_delete :: "string \<Rightarrow> (world, unit) effect" where
  "company_delete i w =
     (case find (\<lambda>c. co_id c = i) (companies w) of
        None \<Rightarrow> (Failure (Fail (PrismaError ''Record to delete does not exist'')), w)
      | Some c \<Rightarrow>
          if co_crmSyncEvent c = None
          then (Success (), w\<lparr>companies := filter (\<lambda>c. co_id c \<noteq> i) (companies w)\<rparr>)
          else (Failure (Fail (PrismaError ''Foreign key constraint violated'')), w))"

definition placeEntry_update_where :: "string \<Rightarrow> string \<Rightarrow> bool option \<Rightarrow> (world, unit) effect" where
  "placeEntry_update_where name url st w =
     (case find (\<lambda>r. pe_name r = Some name \<and> pe_url r = url) (placeEntries w) of
        None \<Rightarrow> (Failure (Fail (PrismaError ''Record to update not found'')), w)
      | Some _ \<Rightarrow>
          (Success (),
           w\<lparr>placeEntries :=
               map (\<lambda>r. if pe_name r = Some name \<and> pe_url r = url then r\<lparr>pe_status := st\<rparr> else r)
                 (placeEntries w)\<rparr>))"

definition company_create_crmSyncEvent :: "string \<Rightarrow> bool \<Rightarrow> (world, unit) effect" where
  "company_create_crmSyncEvent i st w =
     (case find (\<lambda>c. co_id c = i) (companies w) of
        None \<Rightarrow> (Failure (Fail (PrismaError ''Record to update not found'')), w)
      | Some c \<Rightarrow>
          if co_crmSyncEvent c = None
          then (Success (),
                w\<lparr>companies :=
                    map (\<lambda>c. if co_id c = i then c\<lparr>co_crmSyncEvent := Some (Some st)\<rparr> else c)
                      (companies w)\<rparr>)
          else (Failure (Fail (PrismaError ''Unique constraint failed on the fields: (companyId)'')), w))"

definition crm_fetchOnce :: "(world, company) effect" where
  "crm_fetchOnce =
     flatMap (logInfo ''Checking database for next record...'') (\<lambda>_.
     flatMap company_findFirst_unsynced (\<lambda>record.
       case record of
         None \<Rightarrow>
           flatMap (logInfo ''No records found, will retry in 30 seconds...'') (\<lambda>_.
           fail NoMoreRecords)
       | Some r \<Rightarrow> succeed r))"

definition crm_fetchNextRecord :: "(world, company option) effect" where
  "crm_fetchNextRecord =
     catchTag NoMoreRecords
       (mapE Some (retry wait (exponential_recurs 30000 5) crm_fetchOnce))
       (flatMap (logInfo ''No more records found after retries, stopping...'') (\<lambda>_.
        succeed None))"

text \<open>The inner block of the runner's \<open>processOneRecord\<close> (lines 106 to 169).\<close>

definition crm_runWorkflow ::
  "(crm_payload \<Rightarrow> (world, unit) effect) \<Rightarrow> company \<Rightarrow> nat \<Rightarrow> (world, unit) effect" where
  "crm_runWorkflow execute record startTime =
     (if co_servicesOffered record = [] then
        flatMap (increment RecordsSkipped) (\<lambda>_.
        flatMap (logInfo ''Record has no services, deleting...'') (\<lambda>_.
        flatMap (company_delete (co_id record)) (\<lambda>_.
        flatMap (placeEntry_update_where (co_name record) (co_websiteUrl record) None) (\<lambda>_.
        flatMap now (\<lambda>t.
        flatMap (recordDuration (t - startTime)) (\<lambda>_.
        logInfo ''Skipped record processed''))))))
      else
        flatMap (logInfo ''Starting workflow execution...'') (\<lambda>_.
        flatMap
          (catchAll
             (catchTag TimeoutException
                (mapE (\<lambda>_. Some True) (timeout 180000 (execute \<lparr>cp_id = co_id record\<rparr>)))
                (flatMap (logWarning ''Workflow timeout'') (\<lambda>_.
                 flatMap (increment RecordsFailed) (\<lambda>_.
                 flatMap (increment RecordsTimedOut) (\<lambda>_.
                 succeed None)))))
             (\<lambda>error.
                flatMap (logError ''Workflow error'') (\<lambda>_.
                flatMap (increment RecordsFailed) (\<lambda>_.
                succeed (Some False)))))
          (\<lambda>isCompleted.
        flatMap (logInfo ''Workflow completed'') (\<lambda>_.
        flatMap
          (case isCompleted of
             None \<Rightarrow> succeed ()
           | Some st \<Rightarrow>
               flatMap (logInfo ''Updating database with result...'') (\<lambda>_.
               flatMap (company_create_crmSyncEvent (co_id record) st) (\<lambda>_.
               logInfo ''Database updated successfully'')))
          (\<lambda>_.
        flatMap now (\<lambda>t. recordDuration (t - startTime)))))))"

definition crm_processOneRecord ::
  "(crm_payload \<Rightarrow> (world, unit) effect) \<Rightarrow> (world, loop_state) effect" where
  "crm_processOneRecord execute =
     flatMap (logInfo ''Starting new iteration'') (\<lambda>_.
     flatMap now (\<lambda>startTime.
     flatMap crm_fetchNextRecord (\<lambda>record.
       case record of
         None \<Rightarrow> succeed \<lparr>continue = False\<rparr>
       | Some record \<Rightarrow>
           flatMap (increment RecordsProcessed) (\<lambda>_.
           flatMap (logInfo ''Found record to process'') (\<lambda>_.
           flatMap
             (catchAll (crm_runWorkflow execute record startTime)
                (\<lambda>error.
                   flatMap (logError ''Error processing record'') (\<lambda>_.
                   flatMap (increment RecordsFailed) (\<lambda>_.
                   flatMap now (\<lambda>t. recordDuration (t - startTime))))))
             (\<lambda>_.
           flatMap (logInfo ''Record processed successfully'') (\<lambda>_.
           flatMap (sleep 3000) (\<lambda>_.
           succeed \<lparr>continue = True\<rparr>))))))))"

definition crm_logMetrics :: "(world, unit) effect" where
  "crm_logMetrics w =
     (let processed = int (recordsProcessed w);
          failed = int (recordsFailed w);
          skipped = int (recordsSkipped w);
          timedOut = int (recordsTimedOut w);
          successCount = processed - failed - skipped;
          successRate = (if processed > 0 then Percent successCount processed else Text ''N/A'')
      in
        flatMap (logInfo ''==='') (\<lambda>_.
        flatMap (logInfo ''Metrics Report'') (\<lambda>_.
        flatMap (logInfo ''==='') (\<lambda>_.
        flatMap (logAt LevelInfo ''Total Processed: '' [Num processed]) (\<lambda>_.
        flatMap (logAt LevelInfo ''Succeeded: '' [Num successCount]) (\<lambda>_.
        flatMap (logAt LevelInfo ''Failed: '' [Num failed]) (\<lambda>_.
        flatMap (logAt LevelInfo ''Skipped (no services): '' [Num skipped]) (\<lambda>_.
        flatMap (logAt LevelInfo ''Timed Out: '' [Num timedOut]) (\<lambda>_.
        flatMap (logAt LevelInfo ''Success Rate: '' [successRate]) (\<lambda>_.
        logInfo ''===''))))))))) w)"

definition crm_mainProcessingLoop ::
  "(crm_payload \<Rightarrow> (world, unit) effect) \<Rightarrow> nat \<Rightarrow> world \<Rightarrow> unit exit option \<times> world" where
  "crm_mainProcessingLoop execute fuel w =
     (case loop fuel \<lparr>continue = True\<rparr> (\<lambda>state. continue state) (\<lambda>state. state)
             (\<lambda>_. crm_processOneRecord execute) w of
        (Some (Success _), w') \<Rightarrow>
          (case flatMap (logInfo ''All records processed successfully!'') (\<lambda>_. crm_logMetrics) w' of
             (r, w'') \<Rightarrow> (Some r, w''))
      | (Some (Failure c), w') \<Rightarrow> (Some (Failure c), w')
      | (Some Suspended, w') \<Rightarrow> (Some Suspended, w')
      | (None, w') \<Rightarrow> (None, w'))"

definition crm_metricsReporter :: "nat \<Rightarrow> world \<Rightarrow> unit exit option \<times> world" where
  "crm_metricsReporter fuel w =
     (case repeatSpaced fuel 30000 crm_logMetrics w of
        (Some (Failure (Fail error)), w') \<Rightarrow>
          (case logError ''Metrics logging error'' w' of (r, w'') \<Rightarrow> (Some r, w''))
      | (r, w') \<Rightarrow> (r, w'))"

text \<open>A company scraped from row 1 for which no service was stored.\<close>

definition emptyCompany :: company where
  "emptyCompany =
     \<lparr>co_id = ''c1'', co_name = ''Firm'', co_websiteUrl = ''https://firm.example/1'',
      co_emailAddress = Some ''office@firm.example'', co_phoneNumber = None, co_address = None,
      co_industry = Some ''Legal'', co_location = Some ''London'', co_servicesOffered = [],
      co_crmSyncEvent = None\<rparr>"

text \<open>A place entry without a name, already marked done, and the company that belongs to
  it: the activity names the company of a nameless entry \<open>Default Name\<close>
  (scrapeWebsite.ts, line 217).\<close>

definition namelessRow :: placeEntry where
  "namelessRow = (row ''1'')\<lparr>pe_name := None, pe_status := Some True\<rparr>"

definition defaultNameCompany :: company where
  "defaultNameCompany = emptyCompany\<lparr>co_name := ''Default Name''\<rparr>"

section \<open>Theorems\<close>

subsection \<open>Idempotency keys\<close>

text \<open>
  C7. Of the three workflow definitions, exactly the website scraper and the CRM sync append
  the clock reading to the record id: for these two, the same payload submitted at two
  different clock readings gets two different keys, so the key is not a function of the
  payload. The key of the places locator is exactly the id of its payload, whatever the clock
  reads, so equal payloads get equal keys.
\<close>

theorem idempotencyKey_timestamped:
  "{r. \<exists>t1 t2. idempotencyKey t1 r \<noteq> idempotencyKey t2 r}
     = range PlaceWebsiteScraperWorkflow \<union> range SyncCrmplaceDetailWorkflow
   \<and> (t1 \<noteq> t2 \<longrightarrow>
        idempotencyKey t1 (PlaceWebsiteScraperWorkflow p) = sp_id p @ ''-'' @ t1
      \<and> idempotencyKey t1 (PlaceWebsiteScraperWorkflow p) \<noteq> idempotencyKey t2 (PlaceWebsiteScraperWorkflow p)
      \<and> idempotencyKey t1 (SyncCrmplaceDetailWorkflow q) = cp_id q @ ''-'' @ t1
      \<and> idempotencyKey t1 (SyncCrmplaceDetailWorkflow q) \<noteq> idempotencyKey t2 (SyncCrmplaceDetailWorkflow q))
   \<and> idempotencyKey t1 (PlacesLocatorWorkflow l) = lp_id l
   \<and> (l = l' \<longrightarrow> idempotencyKey t1 (PlacesLocatorWorkflow l) = idempotencyKey t2 (PlacesLocatorWorkflow l'))"
proof -
  have ts: "\<exists>t1 t2 :: string. t1 \<noteq> t2"
    by (rule exI [of _ "''a''"], rule exI [of _ "''b''"]) simp
  have "{r. \<exists>t1 t2. idempotencyKey t1 r \<noteq> idempotencyKey t2 r}
          = range PlaceWebsiteScraperWorkflow \<union> range SyncCrmplaceDetailWorkflow"
  proof (rule set_eqI)
    fix r
    show "r \<in> {r. \<exists>t1 t2. idempotencyKey t1 r \<noteq> idempotencyKey t2 r}
            \<longleftrightarrow> r \<in> range PlaceWebsiteScraperWorkflow \<union> range SyncCrmplaceDetailWorkflow"
      using ts
      by (cases r)
         (auto simp add: PlaceWebsiteScraperWorkflow_idempotencyKey_def
            SyncCrmplaceDetailWorkflow_idempotencyKey_def PlacesLocatorWorkflow_idempotencyKey_def)
  qed
  then show ?thesis
    by (simp add: PlaceWebsiteScraperWorkflow_idempotencyKey_def
          SyncCrmplaceDetailWorkflow_idempotencyKey_def PlacesLocatorWorkflow_idempotencyKey_def)
qed

theorem idempotencyKey_timestamped_witness:
  "idempotencyKey ''2026-01-02T19:35:42.000Z'' (PlaceWebsiteScraperWorkflow
       \<lparr>sp_id = ''r1'', sp_name = None, sp_url = ''u'', sp_address = None, sp_phone = None, sp_location = ''London''\<rparr>)
     \<noteq> idempotencyKey ''2026-01-02T19:35:42.001Z'' (PlaceWebsiteScraperWorkflow
       \<lparr>sp_id = ''r1'', sp_name = None, sp_url = ''u'', sp_address = None, sp_phone = None, sp_location = ''London''\<rparr>)
   \<and> idempotencyKey ''2026-01-02T19:35:42.000Z'' (SyncCrmplaceDetailWorkflow \<lparr>cp_id = ''c1''\<rparr>)
     = ''c1-2026-01-02T19:35:42.000Z''
   \<and> idempotencyKey ''2026-01-02T19:35:42.000Z''
        (PlacesLocatorWorkflow \<lparr>lp_id = ''g1'', lp_url = ''u'', lp_location = ''London''\<rparr>) = ''g1''"
  using idempotencyKey_timestamped
    [of "''2026-01-02T19:35:42.000Z''" "''2026-01-02T19:35:42.001Z''"
        "\<lparr>sp_id = ''r1'', sp_name = None, sp_url = ''u'', sp_address = None, sp_phone = None, sp_location = ''London''\<rparr>"
        "\<lparr>cp_id = ''c1''\<rparr>"
        "\<lparr>lp_id = ''g1'', lp_url = ''u'', lp_location = ''London''\<rparr>"
        "\<lparr>lp_id = ''g1'', lp_url = ''u'', lp_location = ''London''\<rparr>"]
  by (simp add: PlaceWebsiteScraperWorkflow_idempotencyKey_def
        SyncCrmplaceDetailWorkflow_idempotencyKey_def PlacesLocatorWorkflow_idempotencyKey_def)

subsection \<open>The browser pool\<close>

lemma getContext_acquired:
  assumes "newContext env (Suc (created p)) = Resolves ()" and "0 < permits p"
  shows "getContext env h (fs, p) =
           (Success (Suc (created p)),
            (releaseContext env h (Suc (created p)) # fs,
             p\<lparr>created := Suc (created p), live := live p @ [Suc (created p)]\<rparr>))"
  using assms
  by (simp add: getContext_def retry_def recurs_def withPermits_def acquireRelease_def
        browser_newContext_def created_next_def opened_def flatMap_def promise_def
        numeral_2_eq_2)

lemma getContext_rejected:
  assumes "newContext env (Suc (created p)) = Rejects m" and "0 < permits p"
  shows "getContext env h (fs, p) = (Failure (Die m), (fs, p\<lparr>created := Suc (created p)\<rparr>))"
  using assms
  by (simp add: getContext_def retry_def recurs_def withPermits_def acquireRelease_def
        browser_newContext_def created_next_def opened_def flatMap_def promise_def
        numeral_2_eq_2)

lemma getBrowserAgent_rejected:
  assumes "startBrowserAgent env (Suc (created p)) = Rejects m" and "0 < permits p"
  shows "getBrowserAgent env (fs, p) = (Failure (Die m), (fs, p\<lparr>created := Suc (created p)\<rparr>))"
  using assms
  by (simp add: getBrowserAgent_def retry_def recurs_def withPermits_def acquireRelease_def
        agent_start_def created_next_def opened_def flatMap_def promise_def
        numeral_2_eq_2)

lemma closeScope_single:
  "snd (closeScope [f] r s) = snd (f s)"
  by (cases "f s") (auto split: exit.splits)

lemma getContexts_live:
  assumes "0 < permits p"
  shows "\<exists>fs'. getContexts browser_ok h n (fs, p) =
           (Success [Suc (created p)..<Suc (created p + n)],
            (fs', p\<lparr>created := created p + n,
                    live := live p @ [Suc (created p)..<Suc (created p + n)]\<rparr>))
         \<and> length fs' = length fs + n"
  using assms
proof (induction n arbitrary: fs p)
  case 0
  then show ?case by (simp add: succeed_def)
next
  case (Suc n)
  let ?p1 = "p\<lparr>created := Suc (created p), live := live p @ [Suc (created p)]\<rparr>"
  let ?f = "releaseContext browser_ok h (Suc (created p))"
  have acq: "getContext browser_ok h (fs, p) = (Success (Suc (created p)), (?f # fs, ?p1))"
    using Suc.prems by (intro getContext_acquired) (simp_all add: browser_ok_def)
  have "0 < permits ?p1" using Suc.prems by simp
  from Suc.IH [OF this, of "?f # fs"] obtain fs' where
    rest: "getContexts browser_ok h n (?f # fs, ?p1) =
             (Success [Suc (created ?p1)..<Suc (created ?p1 + n)],
              (fs', ?p1\<lparr>created := created ?p1 + n,
                       live := live ?p1 @ [Suc (created ?p1)..<Suc (created ?p1 + n)]\<rparr>))"
    and len: "length fs' = length (?f # fs) + n"
    by blast
  have split: "[Suc (created p)..<Suc (created p + Suc n)]
                 = Suc (created p) # [Suc (Suc (created p))..<Suc (Suc (created p) + n)]"
    by (simp add: upt_conv_Cons)
  show ?case
    apply (rule exI [of _ fs'])
    apply (simp only: getContexts.simps flatMap_def mapE_def acq rest prod.case exit.case succeed_def split)
    using len
    apply simp
    done
qed

text \<open>
  C4. The number of contexts open at once is not bounded by the 10 permits.
  \<open>withPermits(1)\<close> encloses the acquisition only: the permit is given back as soon as
  the context is created and its release registered, not when the context is closed. A task
  that opens \<open>n\<close> contexts in one scope, with a browser that creates every context, holds
  all \<open>n\<close> of them open at once, for every \<open>n\<close> (so for 11), with the 10 permits free
  again and no context closed.
\<close>

theorem getContexts_live_unbounded:
  "fst (getContexts browser_ok None n ([], makePool)) = Success [1..<Suc n]
   \<and> snd (snd (getContexts browser_ok None n ([], makePool)))
       = \<lparr>permits = 10, created = n, live = [1..<Suc n], closed = []\<rparr>
   \<and> length (fst (snd (getContexts browser_ok None n ([], makePool)))) = n"
proof -
  have "0 < permits makePool" by (simp add: makePool_def)
  from getContexts_live [OF this, of None n "[]"] obtain fs' where
    "getContexts browser_ok None n ([], makePool) =
       (Success [Suc (created makePool)..<Suc (created makePool + n)],
        (fs', makePool\<lparr>created := created makePool + n,
                 live := live makePool @ [Suc (created makePool)..<Suc (created makePool + n)]\<rparr>))"
    and "length fs' = length ([] :: pool finalizer list) + n"
    by blast
  then show ?thesis by (simp add: makePool_def)
qed

text \<open>
  C3 (as amended). For a context issued inside a scope, the release action runs exactly once,
  when the scope closes and after the consuming code has exited, whether that code succeeded
  or failed: the state the scope leaves is the state the consumer left with the release
  applied to it once. The release runs the \<open>onBeforeClose\<close> callback, if there is one, and
  then closes the context, provided the callback succeeded. A callback that fails is not
  swallowed: the context is not closed and the scope fails.
\<close>

theorem getContext_release_once:
  assumes "newContext env (Suc (created p)) = Resolves ()"
    and "0 < permits p"
    and "use (Suc (created p)) (p\<lparr>created := Suc (created p), live := live p @ [Suc (created p)]\<rparr>) = (r, p2)"
    and "r \<noteq> Suspended"
  shows "scoped (flatMap (getContext env hook) (\<lambda>c. liftS (use c))) p
           = closeScope [releaseContext env hook (Suc (created p))] r p2
       \<and> snd (scoped (flatMap (getContext env hook) (\<lambda>c. liftS (use c))) p)
           = snd (releaseContext env hook (Suc (created p)) p2)
       \<and> (contextClose env (Suc (created p)) = Resolves () \<longrightarrow>
            (hook = None \<longrightarrow>
               releaseContext env hook (Suc (created p)) p2
                 = (Success (), p2\<lparr>live := removeAll (Suc (created p)) (live p2),
                                   closed := closed p2 @ [Suc (created p)]\<rparr>))
          \<and> (\<forall>h p3. hook = Some h \<and> h (Suc (created p)) p2 = (Success (), p3) \<longrightarrow>
               releaseContext env hook (Suc (created p)) p2
                 = (Success (), p3\<lparr>live := removeAll (Suc (created p)) (live p3),
                                   closed := closed p3 @ [Suc (created p)]\<rparr>)))
       \<and> (\<forall>h c p3. hook = Some h \<and> h (Suc (created p)) p2 = (Failure c, p3) \<longrightarrow>
            snd (scoped (flatMap (getContext env hook) (\<lambda>c. liftS (use c))) p) = p3
          \<and> (\<exists>d. fst (scoped (flatMap (getContext env hook) (\<lambda>c. liftS (use c))) p) = Failure d))"
proof -
  let ?c = "Suc (created p)"
  let ?run = "scoped (flatMap (getContext env hook) (\<lambda>c. liftS (use c))) p"
  have run: "?run = closeScope [releaseContext env hook ?c] r p2"
    using assms(3,4)
    by (cases r)
       (simp_all add: scoped_def flatMap_def liftS_def getContext_acquired [OF assms(1,2)])
  have once: "snd ?run = snd (releaseContext env hook ?c p2)"
    by (simp only: run closeScope_single)
  have none: "contextClose env ?c = Resolves () \<Longrightarrow> hook = None \<Longrightarrow>
      releaseContext env hook ?c p2
        = (Success (), p2\<lparr>live := removeAll ?c (live p2), closed := closed p2 @ [?c]\<rparr>)"
    by (simp add: releaseContext_def orDie_def flatMap_def succeed_def context_close_def
          promise_def shut_def)
  have some: "contextClose env ?c = Resolves () \<Longrightarrow> hook = Some h \<Longrightarrow> h ?c p2 = (Success (), p3) \<Longrightarrow>
      releaseContext env hook ?c p2
        = (Success (), p3\<lparr>live := removeAll ?c (live p3), closed := closed p3 @ [?c]\<rparr>)" for h p3
    by (simp add: releaseContext_def orDie_def flatMap_def succeed_def context_close_def
          promise_def shut_def)
  have bad: "snd ?run = p3 \<and> (\<exists>d. fst ?run = Failure d)"
    if h: "hook = Some h" "h ?c p2 = (Failure c, p3)" for h c p3
  proof -
    have rel: "releaseContext env hook ?c p2
                 = (Failure (case c of Fail e \<Rightarrow> Die (message e) | Die d \<Rightarrow> Die d), p3)"
      using h by (cases c) (simp_all add: releaseContext_def orDie_def flatMap_def)
    show ?thesis
      unfolding run using rel assms(4) by (cases r) simp_all
  qed
  show ?thesis
    using run once none some bad by blast
qed

theorem getContext_release_once_witness:
  "scoped (flatMap (getContext browser_ok (Some (saveStorageState (\<lambda>c. Rejects ''disk full''))))
                   (\<lambda>c. liftS ((\<lambda>c. fail (JsError ''page crashed'')) c))) makePool
     = (Failure (Fail (JsError ''page crashed'')) :: nat exit,
        \<lparr>permits = 10, created = 1, live = [], closed = [1]\<rparr>)"
proof -
  have a: "newContext browser_ok (Suc (created makePool)) = Resolves ()"
    by (simp add: browser_ok_def)
  have b: "0 < permits makePool" by (simp add: makePool_def)
  have c: "(\<lambda>c. fail (JsError ''page crashed'')) (Suc (created makePool))
             (makePool\<lparr>created := Suc (created makePool),
                       live := live makePool @ [Suc (created makePool)]\<rparr>)
           = (Failure (Fail (JsError ''page crashed'')),
              makePool\<lparr>created := Suc (created makePool),
                       live := live makePool @ [Suc (created makePool)]\<rparr>)"
    by (simp add: fail_def)
  have d: "Failure (Fail (JsError ''page crashed'')) \<noteq> (Suspended :: nat exit)" by simp
  from getContext_release_once
         [where env = browser_ok and p = makePool
            and hook = "Some (saveStorageState (\<lambda>c. Rejects ''disk full''))"
            and use = "\<lambda>c. fail (JsError ''page crashed'')"
            and r = "Failure (Fail (JsError ''page crashed''))"
            and ?p2.0 = "makePool\<lparr>created := Suc (created makePool),
                                  live := live makePool @ [Suc (created makePool)]\<rparr>",
          OF a b c d]
  show ?thesis
    by (simp add: makePool_def browser_ok_def releaseContext_def orDie_def flatMap_def
          succeed_def context_close_def promise_def shut_def saveStorageState_def ignore_def
          tryPromise_def)
qed

text \<open>A callback that dies: the scope fails with the callback's defect and the context is
  still open, never closed.\<close>

theorem getContext_hook_counterexample:
  "scoped (flatMap (getContext browser_ok (Some (\<lambda>c. die ''storageState failed'')))
                   (\<lambda>c. liftS (succeed c))) makePool
     = (Failure (Die ''storageState failed''),
        \<lparr>permits = 10, created = 1, live = [1], closed = []\<rparr>)"
  by (simp add: scoped_def flatMap_def liftS_def getContext_def retry_def recurs_def
        withPermits_def acquireRelease_def browser_newContext_def created_next_def opened_def
        promise_def numeral_2_eq_2 makePool_def browser_ok_def releaseContext_def orDie_def
        die_def succeed_def)

text \<open>
  C5. A creation that the browser rejects ends the acquisition at once, in a defect.
  \<open>Effect.promise\<close> turns the rejection into a defect, and \<open>Effect.retry\<close> retries typed
  failures only, so the \<open>Schedule.recurs(2)\<close> around the acquisition never recurs: when the
  creation is rejected, acquiring a context or an agent makes exactly one creation attempt
  and dies with the message of the rejection. No handle is issued, nothing is registered
  for release, the permit is given back and nothing is left open. The failure is not in the
  error channel: a handler of typed errors around the call does not see it.
\<close>

theorem acquisition_rejected_once:
  assumes "newContext env (Suc (created p)) = Rejects m"
    and "startBrowserAgent aenv (Suc (created p)) = Rejects m'"
    and "0 < permits p"
  shows "getContext env hook (fs, p) = (Failure (Die m), (fs, p\<lparr>created := Suc (created p)\<rparr>))
       \<and> getBrowserAgent aenv (fs, p) = (Failure (Die m'), (fs, p\<lparr>created := Suc (created p)\<rparr>))
       \<and> catchAll (getContext env hook) handler (fs, p) = getContext env hook (fs, p)
       \<and> catchAll (getBrowserAgent aenv) handler' (fs, p) = getBrowserAgent aenv (fs, p)"
  by (simp add: getContext_rejected [OF assms(1,3)] getBrowserAgent_rejected [OF assms(2,3)]
        catchAll_def)

theorem acquisition_rejected_once_witness:
  "getContext browser_down None ([], makePool)
     = (Failure (Die ''browser has been closed''),
        ([], \<lparr>permits = 10, created = 1, live = [], closed = []\<rparr>))
   \<and> getBrowserAgent agents_down ([], makePool)
     = (Failure (Die ''browser has been closed''),
        ([], \<lparr>permits = 10, created = 1, live = [], closed = []\<rparr>))"
proof -
  have a: "newContext browser_down (Suc (created makePool)) = Rejects ''browser has been closed''"
    by (simp add: browser_down_def)
  have b: "startBrowserAgent agents_down (Suc (created makePool)) = Rejects ''browser has been closed''"
    by (simp add: agents_down_def)
  have c: "0 < permits makePool" by (simp add: makePool_def)
  from acquisition_rejected_once [OF a b c, of None "[]"] show ?thesis
    by (simp add: makePool_def)
qed

subsection \<open>The website scraper runner\<close>

lemmas effect_defs =
  succeed_def fail_def die_def flatMap_def mapE_def catchAll_def catchTag_def
  mapError_def tapError_def orDie_def promise_def tryPromise_def retry_def noWait_def

lemmas world_defs =
  logAt_def logInfo_def logWarning_def logError_def wait_def sleep_def now_def
  timeout_def earliest_def recordDuration_def placeEntry_findFirst_unclaimed_def
  placeEntry_update_status_def

lemmas pool_defs =
  getBrowserAgent_def withPermits_def acquireRelease_def agent_start_def created_next_def
  opened_def releaseAgent_def agent_stop_def shut_def scoped_def scoped_timed_def liftS_def
  recurs_def

text \<open>A timeout on the virtual clock: a sleep shorter than the timeout completes, a longer
  one is cut at the deadline with \<open>TimeoutException\<close>; of two nested timeouts the
  earlier deadline decides; an effect that never completes is cut at the deadline.\<close>

lemma timeout_sleep:
  assumes "deadline w = None"
  shows "fst (timeout d (sleep e) w) = (if e < d then Success () else Failure (Fail TimeoutException))"
    and "clock (snd (timeout d (sleep e) w)) = clock w + min e d"
    and "deadline (snd (timeout d (sleep e) w)) = None"
  using assms
  by (simp_all add: timeout_def sleep_def wait_def cutOff_def earliest_def)

lemma timeout_nested_sleep:
  assumes "deadline w = None"
  shows "fst (timeout d (timeout d' (sleep e)) w)
           = (if e < d' \<and> e < d then Success () else Failure (Fail TimeoutException))"
    and "clock (snd (timeout d (timeout d' (sleep e)) w)) = clock w + min e (min d d')"
  using assms
  by (auto simp add: timeout_def sleep_def wait_def cutOff_def earliest_def min_def)

lemma timeout_never:
  assumes "deadline w = None"
  shows "timeout d never w
           = (Failure (Fail TimeoutException), w\<lparr>clock := clock w + d, deadline := None\<rparr>)"
  using assms
  by (simp add: timeout_def never_def cutOff_def earliest_def)

text \<open>A consumer that holds a context and never completes, under a timeout: the timeout
  fires, and the interruption closes the scope of the consumer, so that the context is
  closed.\<close>

lemma timeout_closes_scope:
  "fst (timeout 300000 (scoped_timed (flatMap (getContext browser_ok None) (\<lambda>c. never)))
          (startWorld [] [])) = (Failure (Fail TimeoutException) :: unit exit)
   \<and> live (snd (timeout 300000 (scoped_timed (flatMap (getContext browser_ok None) (\<lambda>c. never)))
          (startWorld [] []) :: unit exit \<times> world)) = []
   \<and> closed (snd (timeout 300000 (scoped_timed (flatMap (getContext browser_ok None) (\<lambda>c. never)))
          (startWorld [] []) :: unit exit \<times> world)) = [1]
   \<and> permits (snd (timeout 300000 (scoped_timed (flatMap (getContext browser_ok None) (\<lambda>c. never)))
          (startWorld [] []) :: unit exit \<times> world)) = 10"
  by (simp add: timeout_def cutOff_def earliest_def scoped_timed_def flatMap_def never_def
        getContext_def retry_def recurs_def withPermits_def acquireRelease_def
        browser_newContext_def created_next_def opened_def promise_def numeral_2_eq_2
        browser_ok_def releaseContext_def orDie_def succeed_def context_close_def shut_def
        startWorld_def)

lemma empty_backlog_schedule:
  "exponential_recurs 30000 5 = [30000, 60000, 120000, 240000, 480000]"
  by (simp add: exponential_recurs_def upt_rec)

lemma fetchOnce_none:
  assumes "find (\<lambda>r. pe_status r = None) (placeEntries w) = None"
  shows "fetchOnce w =
           (Failure (Fail NoMoreRecords),
            w\<lparr>logged := logged w @ [Log LevelInfo ''Checking database for next record...'' [],
                                   Log LevelInfo ''No records found, will retry in 30 seconds...'' []]\<rparr>)"
  using assms by (simp add: fetchOnce_def effect_defs world_defs)

lemma fetchOnce_some:
  assumes "find (\<lambda>r. pe_status r = None) (placeEntries w) = Some r"
  shows "fetchOnce w =
           (Success r, w\<lparr>logged := logged w @ [Log LevelInfo ''Checking database for next record...'' []]\<rparr>)"
  using assms by (simp add: fetchOnce_def effect_defs world_defs)

lemma fetchNextRecord_none:
  assumes "find (\<lambda>r. pe_status r = None) (placeEntries w) = None"
  shows "fetchNextRecord w =
           (Success None,
            w\<lparr>clock := clock w + 930000,
              logged := logged w @
                [Log LevelInfo ''Checking database for next record...'' [],
                 Log LevelInfo ''No records found, will retry in 30 seconds...'' [],
                 Log LevelInfo ''Checking database for next record...'' [],
                 Log LevelInfo ''No records found, will retry in 30 seconds...'' [],
                 Log LevelInfo ''Checking database for next record...'' [],
                 Log LevelInfo ''No records found, will retry in 30 seconds...'' [],
                 Log LevelInfo ''Checking database for next record...'' [],
                 Log LevelInfo ''No records found, will retry in 30 seconds...'' [],
                 Log LevelInfo ''Checking database for next record...'' [],
                 Log LevelInfo ''No records found, will retry in 30 seconds...'' [],
                 Log LevelInfo ''Checking database for next record...'' [],
                 Log LevelInfo ''No records found, will retry in 30 seconds...'' [],
                 Log LevelInfo ''No more records found after retries, stopping...'' []]\<rparr>)"
  using assms
  by (simp add: fetchNextRecord_def retry_def mapE_def flatMap_def catchTag_def succeed_def
        empty_backlog_schedule fetchOnce_none wait_def logInfo_def logAt_def)

lemma fetchNextRecord_some:
  assumes "find (\<lambda>r. pe_status r = None) (placeEntries w) = Some r"
  shows "fetchNextRecord w =
           (Success (Some r),
            w\<lparr>logged := logged w @ [Log LevelInfo ''Checking database for next record...'' []]\<rparr>)"
  using assms
  by (simp add: fetchNextRecord_def retry_def mapE_def flatMap_def catchTag_def succeed_def
        empty_backlog_schedule fetchOnce_some)

lemma processOneRecord_none:
  assumes "find (\<lambda>r. pe_status r = None) (placeEntries w) = None"
  shows "\<exists>w'. processOneRecord execute w = (Success \<lparr>continue = False\<rparr>, w')
            \<and> placeEntries w' = placeEntries w \<and> clock w' = clock w + 930000
            \<and> recordsProcessed w' = recordsProcessed w \<and> recordsFailed w' = recordsFailed w
            \<and> recordsTimedOut w' = recordsTimedOut w
            \<and> processingDuration w' = processingDuration w"
  using assms
  by (simp add: processOneRecord_def flatMap_def succeed_def logInfo_def logAt_def now_def
        fetchNextRecord_none)

lemma loop_running:
  "fst (loop n \<lparr>continue = True\<rparr> (\<lambda>state. continue state) (\<lambda>state. state) body s)
     \<noteq> Some (Success xs)"
proof (induction n arbitrary: s xs)
  case 0
  show ?case by simp
next
  case (Suc n)
  show ?case
  proof (cases "body \<lparr>continue = True\<rparr> s")
    case (Pair r s')
    show ?thesis
    proof (cases r)
      case (Success a)
      obtain q s'' where rest:
        "loop n \<lparr>continue = True\<rparr> (\<lambda>state. continue state) (\<lambda>state. state) body s' = (q, s'')"
        by (cases "loop n \<lparr>continue = True\<rparr> (\<lambda>state. continue state) (\<lambda>state. state) body s'")
      from Suc.IH [of s'] rest have "\<And>ys. q \<noteq> Some (Success ys)" by simp
      then show ?thesis
        using Pair Success rest by (simp split: option.splits exit.splits)
    qed (simp_all add: Pair)
  qed
qed

lemma mainProcessingLoop_running:
  "fst (mainProcessingLoop execute n w) \<noteq> Some (Success u)"
proof -
  obtain q w' where l:
    "loop n \<lparr>continue = True\<rparr> (\<lambda>state. continue state) (\<lambda>state. state)
       (\<lambda>_. processOneRecord execute) w = (q, w')"
    by (cases "loop n \<lparr>continue = True\<rparr> (\<lambda>state. continue state) (\<lambda>state. state)
                 (\<lambda>_. processOneRecord execute) w")
  from loop_running [of n "\<lambda>_. processOneRecord execute" w] l
  have "\<And>ys. q \<noteq> Some (Success ys)" by simp
  then show ?thesis
    using l by (simp add: mainProcessingLoop_def split: option.splits exit.splits)
qed

lemma loop_empty_backlog:
  assumes "find (\<lambda>r. pe_status r = None) (placeEntries w) = None"
  shows "fst (loop n \<lparr>continue = True\<rparr> (\<lambda>state. continue state) (\<lambda>state. state)
                (\<lambda>_. processOneRecord execute) w) = None"
  using assms
proof (induction n arbitrary: w)
  case 0
  show ?case by simp
next
  case (Suc n)
  from processOneRecord_none [OF Suc.prems, of execute] obtain w' where
    step: "processOneRecord execute w = (Success \<lparr>continue = False\<rparr>, w')"
    and same: "placeEntries w' = placeEntries w"
    by blast
  from same Suc.prems have "find (\<lambda>r. pe_status r = None) (placeEntries w') = None" by simp
  from Suc.IH [OF this] show ?case
    by (cases "loop n \<lparr>continue = True\<rparr> (\<lambda>state. continue state) (\<lambda>state. state)
                 (\<lambda>_. processOneRecord execute) w'")
       (simp add: step)
qed

text \<open>
  C1. With no unclaimed row in the store, \<open>fetchNextRecord\<close> queries six times (the first try
  and five retries, after 30, 60, 120, 240 and 480 seconds), catches \<open>NoMoreRecords\<close> and
  succeeds with no record, and \<open>processOneRecord\<close> answers \<open>continue = false\<close>. The loop does
  not stop there: \<open>Effect.loop\<close> tests the state that \<open>step\<close> computes, the body's answer is
  only collected, and \<open>step\<close> is the identity on the initial \<open>continue = true\<close>. Whatever the
  fuel, the loop on an empty backlog is still running, and on any backlog it never completes
  with a success.
\<close>

theorem mainProcessingLoop_empty_backlog:
  assumes "find (\<lambda>r. pe_status r = None) (placeEntries w) = None"
  shows "fst (fetchNextRecord w) = Success None
       \<and> clock (snd (fetchNextRecord w)) = clock w + (30000 + 60000 + 120000 + 240000 + 480000)
       \<and> length (filter (\<lambda>e. e = Log LevelInfo ''Checking database for next record...'' [])
                   (logged (snd (fetchNextRecord w))))
           = length (filter (\<lambda>e. e = Log LevelInfo ''Checking database for next record...'' [])
                       (logged w)) + 6
       \<and> fst (processOneRecord execute w) = Success \<lparr>continue = False\<rparr>
       \<and> (\<forall>n. fst (mainProcessingLoop execute n w) = None)
       \<and> (\<forall>n w'. fst (mainProcessingLoop execute n w') \<noteq> Some (Success ()))"
proof -
  have a: "fst (fetchNextRecord w) = Success None"
    by (simp add: fetchNextRecord_none [OF assms])
  have b: "clock (snd (fetchNextRecord w)) = clock w + (30000 + 60000 + 120000 + 240000 + 480000)"
    by (simp add: fetchNextRecord_none [OF assms])
  have c: "length (filter (\<lambda>e. e = Log LevelInfo ''Checking database for next record...'' [])
                   (logged (snd (fetchNextRecord w))))
           = length (filter (\<lambda>e. e = Log LevelInfo ''Checking database for next record...'' [])
                       (logged w)) + 6"
    by (simp add: fetchNextRecord_none [OF assms])
  have d: "fst (processOneRecord execute w) = Success \<lparr>continue = False\<rparr>"
    using processOneRecord_none [OF assms, of execute] by auto
  have e: "fst (mainProcessingLoop execute n w) = None" for n
    using loop_empty_backlog [OF assms, of n execute]
    by (cases "loop n \<lparr>continue = True\<rparr> (\<lambda>state. continue state) (\<lambda>state. state)
                 (\<lambda>_. processOneRecord execute) w")
       (simp add: mainProcessingLoop_def)
  have f: "fst (mainProcessingLoop execute n w') \<noteq> Some (Success ())" for n w'
    by (rule mainProcessingLoop_running)
  from a b c d e f show ?thesis by blast
qed

theorem mainProcessingLoop_empty_backlog_witness:
  "fst (fetchNextRecord (startWorld [] [])) = Success None
   \<and> clock (snd (fetchNextRecord (startWorld [] []))) = 930000
   \<and> fst (processOneRecord (\<lambda>p. succeed ()) (startWorld [] [])) = Success \<lparr>continue = False\<rparr>
   \<and> fst (mainProcessingLoop (\<lambda>p. succeed ()) 100 (startWorld [] [])) = None"
proof -
  have h: "find (\<lambda>r. pe_status r = None) (placeEntries (startWorld [] [])) = None"
    by (simp add: startWorld_def)
  from mainProcessingLoop_empty_backlog [OF h, of "\<lambda>p. succeed ()"] show ?thesis
    by (simp add: startWorld_def)
qed

text \<open>An iteration leaves the deadline as it found it, whatever the workflow does: a loop
  that is started under no timeout, as the program starts it, runs every iteration under
  none.\<close>

lemma processOneRecord_deadline:
  "deadline (snd (processOneRecord execute w)) = deadline w"
proof (cases "find (\<lambda>r. pe_status r = None) (placeEntries w)")
  case None
  then show ?thesis
    by (simp add: processOneRecord_def flatMap_def succeed_def logInfo_def logAt_def now_def
          fetchNextRecord_none)
next
  case (Some r)
  obtain x w2 where run: "execute (payloadOf r)
       (w\<lparr>recordsProcessed := Suc (recordsProcessed w),
            logged := logged w @
              [Log LevelInfo ''Starting new iteration'' [],
               Log LevelInfo ''Checking database for next record...'' [],
               Log LevelInfo ''Found record to process'' [],
               Log LevelInfo ''Starting workflow execution...'' []],
            deadline := Some (earliest (deadline w) (clock w + 300000))\<rparr>) = (x, w2)"
    by (cases "execute (payloadOf r)
       (w\<lparr>recordsProcessed := Suc (recordsProcessed w),
            logged := logged w @
              [Log LevelInfo ''Starting new iteration'' [],
               Log LevelInfo ''Checking database for next record...'' [],
               Log LevelInfo ''Found record to process'' [],
               Log LevelInfo ''Starting workflow execution...'' []],
            deadline := Some (earliest (deadline w) (clock w + 300000))\<rparr>)")
  show ?thesis
    using Some run
    by (simp add: processOneRecord_def runWorkflow_def effect_defs logAt_def logInfo_def
          logWarning_def logError_def now_def timeout_def recordDuration_def
          placeEntry_update_status_def sleep_def wait_def fetchNextRecord_some
          split: option.splits exit.splits cause.splits err.splits if_splits)
qed

lemma loop_deadline:
  assumes "\<And>z s. deadline (snd (body z s)) = deadline s"
  shows "deadline (snd (loop n z while step body s)) = deadline s"
proof (induction n arbitrary: z s)
  case 0
  show ?case by simp
next
  case (Suc n)
  show ?case
  proof (cases "body z s")
    case (Pair r s')
    from assms [of z s] Pair have same: "deadline s' = deadline s" by simp
    show ?thesis
    proof (cases r)
      case (Success a)
      from Suc.IH [of "step z" s'] same show ?thesis
        using Pair Success
        by (cases "loop n (step z) while step body s'")
           (simp split: option.splits exit.splits)
    qed (simp_all add: Pair same)
  qed
qed

lemma processOneRecord_timeout:
  assumes found: "find (\<lambda>r. pe_status r = None) (placeEntries w) = Some r"
    and free: "deadline w = None"
    and late: "cutOff (clock w + 300000) (execute (payloadOf r) (workflowStart w))"
  shows "\<exists>w'. processOneRecord execute w = (Success \<lparr>continue = True\<rparr>, w')
            \<and> recordsProcessed w' = recordsProcessed (snd (execute (payloadOf r) (workflowStart w)))
            \<and> recordsFailed w' = Suc (recordsFailed (snd (execute (payloadOf r) (workflowStart w))))
            \<and> recordsTimedOut w' = Suc (recordsTimedOut (snd (execute (payloadOf r) (workflowStart w))))
            \<and> placeEntries w' = placeEntries (snd (execute (payloadOf r) (workflowStart w)))
            \<and> processingDuration w'
                = processingDuration (snd (execute (payloadOf r) (workflowStart w))) @ [300000]
            \<and> clock w' = clock w + 303000"
proof -
  obtain r2 w2 where run: "execute (payloadOf r) (workflowStart w) = (r2, w2)"
    by (cases "execute (payloadOf r) (workflowStart w)")
  have cut: "cutOff (clock w + 300000) (r2, w2)"
    using late run by simp
  show ?thesis
    unfolding run snd_conv
    using found free run [unfolded workflowStart_def] cut
    by (simp add: processOneRecord_def runWorkflow_def effect_defs world_defs
          fetchNextRecord_some)
qed

lemmas runner_defs =
  processOneRecord_def runWorkflow_def fetchNextRecord_def fetchOnce_def payloadOf_def
  mainProcessingLoop_def logMetrics_def empty_backlog_schedule

lemmas scenario_defs =
  scenarioWorld_def scenarioExecute_def startWorld_def row_def never_def

lemma fuel_3: "(3::nat) = Suc (Suc (Suc 0))"
  by simp

lemma fuel_4: "(4::nat) = Suc (Suc (Suc (Suc 0)))"
  by simp

lemma scenario_three:
  "mainProcessingLoop scenarioExecute (Suc (Suc (Suc 0))) scenarioWorld = (q, w3) \<Longrightarrow>
     q = None \<and> recordsProcessed w3 = 3 \<and> recordsFailed w3 = 1 \<and> recordsTimedOut w3 = 1
     \<and> map pe_status (placeEntries w3) = [Some True, Some True, None]
     \<and> length (processingDuration w3) = 3
     \<and> find (\<lambda>r. pe_status r = None) (placeEntries w3) = Some (row ''3'')"
  by (simp add: runner_defs scenario_defs effect_defs world_defs cutOff_def) auto

lemma scenario_four:
  "mainProcessingLoop scenarioExecute (Suc (Suc (Suc (Suc 0)))) scenarioWorld = (q, w4) \<Longrightarrow>
     q = None \<and> recordsProcessed w4 = 4 \<and> recordsFailed w4 = 2 \<and> recordsTimedOut w4 = 2
     \<and> map pe_status (placeEntries w4) = [Some True, Some True, None]"
  by (simp add: runner_defs scenario_defs effect_defs world_defs cutOff_def) auto

text \<open>
  C2 (as amended). When the workflow of the claimed record is cut off by the deadline of
  five minutes after the iteration invoked it, whether it runs long or waits for something
  that does not come, the iteration counts the record as failed and as timed out, writes no
  status (the table and the count of processed records are as the workflow left them),
  records one duration sample, of the five minutes, and answers \<open>continue = true\<close>, 3 seconds
  later. When the workflow does not itself write the backlog table or the loop's metrics,
  the record is so counted once as processed, as failed and as timed out, and the table is
  as it was before the iteration: the row is still unclaimed, and is the row the next query
  finds. In the scenario of three unclaimed rows where the workflow succeeds for rows 1 and
  2 and does not complete for row 3, the loop has, after three iterations, processed 3,
  failed 1 and timed out 1, rows 1 and 2 have status true and row 3 is unchanged; the loop
  is still running, and row 3 is the next row it claims.
\<close>

theorem processOneRecord_timed_out:
  assumes "find (\<lambda>r. pe_status r = None) (placeEntries w) = Some r"
    and "deadline w = None"
    and "cutOff (clock w + 300000) (execute (payloadOf r) (workflowStart w))"
  shows "fst (processOneRecord execute w) = Success \<lparr>continue = True\<rparr>
       \<and> recordsProcessed (snd (processOneRecord execute w))
           = recordsProcessed (snd (execute (payloadOf r) (workflowStart w)))
       \<and> recordsFailed (snd (processOneRecord execute w))
           = Suc (recordsFailed (snd (execute (payloadOf r) (workflowStart w))))
       \<and> recordsTimedOut (snd (processOneRecord execute w))
           = Suc (recordsTimedOut (snd (execute (payloadOf r) (workflowStart w))))
       \<and> placeEntries (snd (processOneRecord execute w))
           = placeEntries (snd (execute (payloadOf r) (workflowStart w)))
       \<and> processingDuration (snd (processOneRecord execute w))
           = processingDuration (snd (execute (payloadOf r) (workflowStart w))) @ [300000]
       \<and> clock (snd (processOneRecord execute w)) = clock w + 300000 + 3000
       \<and> (leavesLoopState (workflowStart w) (snd (execute (payloadOf r) (workflowStart w))) \<longrightarrow>
            recordsProcessed (snd (processOneRecord execute w)) = Suc (recordsProcessed w)
          \<and> recordsFailed (snd (processOneRecord execute w)) = Suc (recordsFailed w)
          \<and> recordsTimedOut (snd (processOneRecord execute w)) = Suc (recordsTimedOut w)
          \<and> placeEntries (snd (processOneRecord execute w)) = placeEntries w
          \<and> processingDuration (snd (processOneRecord execute w)) = processingDuration w @ [300000]
          \<and> find (\<lambda>r. pe_status r = None) (placeEntries (snd (processOneRecord execute w))) = Some r)
       \<and> fst (mainProcessingLoop scenarioExecute 3 scenarioWorld) = None
       \<and> recordsProcessed (snd (mainProcessingLoop scenarioExecute 3 scenarioWorld)) = 3
       \<and> recordsFailed (snd (mainProcessingLoop scenarioExecute 3 scenarioWorld)) = 1
       \<and> recordsTimedOut (snd (mainProcessingLoop scenarioExecute 3 scenarioWorld)) = 1
       \<and> map pe_status (placeEntries (snd (mainProcessingLoop scenarioExecute 3 scenarioWorld)))
           = [Some True, Some True, None]
       \<and> find (\<lambda>r. pe_status r = None)
            (placeEntries (snd (mainProcessingLoop scenarioExecute 3 scenarioWorld)))
           = Some (row ''3'')"
proof -
  let ?x = "snd (execute (payloadOf r) (workflowStart w))"
  from processOneRecord_timeout [where execute = execute and w = w and r = r, OF assms] obtain w' where
    step: "processOneRecord execute w = (Success \<lparr>continue = True\<rparr>, w')"
    and facts: "recordsProcessed w' = recordsProcessed ?x"
      "recordsFailed w' = Suc (recordsFailed ?x)"
      "recordsTimedOut w' = Suc (recordsTimedOut ?x)"
      "placeEntries w' = placeEntries ?x"
      "processingDuration w' = processingDuration ?x @ [300000]"
      "clock w' = clock w + 303000"
    by blast
  have framed: "recordsProcessed ?x = Suc (recordsProcessed w) \<and> recordsFailed ?x = recordsFailed w
        \<and> recordsTimedOut ?x = recordsTimedOut w \<and> placeEntries ?x = placeEntries w
        \<and> processingDuration ?x = processingDuration w"
    if "leavesLoopState (workflowStart w) ?x"
    using that by (simp add: leavesLoopState_def workflowStart_def)
  obtain q w3 where run: "mainProcessingLoop scenarioExecute (Suc (Suc (Suc 0))) scenarioWorld = (q, w3)"
    by (cases "mainProcessingLoop scenarioExecute (Suc (Suc (Suc 0))) scenarioWorld")
  from scenario_three [OF run] show ?thesis
    unfolding fuel_3 using framed by (simp add: step facts assms(1) run)
qed

text \<open>A workflow that runs long, a sleep of 400 seconds; one that waits for ever; and the
  workflow of the repository with an agent whose extraction never answers: its first
  attempt is ended by the activity's own timeout of three minutes, and the second is running
  when the five minutes are over.\<close>

theorem processOneRecord_timed_out_witness:
  "fst (processOneRecord (\<lambda>p. sleep 400000) (startWorld [row ''3''] [])) = Success \<lparr>continue = True\<rparr>
   \<and> recordsProcessed (snd (processOneRecord (\<lambda>p. sleep 400000) (startWorld [row ''3''] []))) = 1
   \<and> recordsFailed (snd (processOneRecord (\<lambda>p. sleep 400000) (startWorld [row ''3''] []))) = 1
   \<and> recordsTimedOut (snd (processOneRecord (\<lambda>p. sleep 400000) (startWorld [row ''3''] []))) = 1
   \<and> placeEntries (snd (processOneRecord (\<lambda>p. sleep 400000) (startWorld [row ''3''] []))) = [row ''3'']
   \<and> processingDuration (snd (processOneRecord (\<lambda>p. sleep 400000) (startWorld [row ''3''] []))) = [300000]
   \<and> clock (snd (processOneRecord (\<lambda>p. sleep 400000) (startWorld [row ''3''] []))) = 303000
   \<and> recordsTimedOut (snd (processOneRecord scenarioExecute (startWorld [row ''3''] []))) = 1
   \<and> placeEntries (snd (processOneRecord scenarioExecute (startWorld [row ''3''] []))) = [row ''3'']
   \<and> recordsTimedOut (snd (processOneRecord (PlaceWebsiteScraperWorkflow_execute hanging)
         (startWorld [row ''3''] []))) = 1
   \<and> placeEntries (snd (processOneRecord (PlaceWebsiteScraperWorkflow_execute hanging)
         (startWorld [row ''3''] []))) = [row ''3'']"
proof -
  let ?w = "startWorld [row ''3''] []"
  have a: "find (\<lambda>r. pe_status r = None) (placeEntries ?w) = Some (row ''3'')"
    by (simp add: startWorld_def row_def)
  have b: "deadline ?w = None"
    by (simp add: startWorld_def)
  have c: "cutOff (clock ?w + 300000) ((\<lambda>p. sleep 400000) (payloadOf (row ''3'')) (workflowStart ?w))"
    by (simp add: cutOff_def sleep_def workflowStart_def startWorld_def)
  have d: "leavesLoopState (workflowStart ?w)
             (snd ((\<lambda>p. sleep 400000) (payloadOf (row ''3'')) (workflowStart ?w)))"
    by (simp add: sleep_def workflowStart_def startWorld_def leavesLoopState_def)
  have e: "cutOff (clock ?w + 300000) (scenarioExecute (payloadOf (row ''3'')) (workflowStart ?w))"
    by (simp add: cutOff_def scenarioExecute_def payloadOf_def row_def never_def)
  have f: "leavesLoopState (workflowStart ?w)
             (snd (scenarioExecute (payloadOf (row ''3'')) (workflowStart ?w)))"
    by (simp add: scenarioExecute_def payloadOf_def row_def never_def leavesLoopState_def)
  have g: "cutOff (clock ?w + 300000)
             (PlaceWebsiteScraperWorkflow_execute hanging (payloadOf (row ''3'')) (workflowStart ?w))"
    by (simp add: cutOff_def PlaceWebsiteScraperWorkflow_execute_def scrapeWebsite_def
          Activity_retry_def scrapeWebsite_execute_def effect_defs world_defs pool_defs
          hanging_def noServices_def agents_ok_def workflowStart_def startWorld_def
          payloadOf_def row_def rejected_def errorHandler_catch_def numeral_2_eq_2)
  have h: "leavesLoopState (workflowStart ?w)
             (snd (PlaceWebsiteScraperWorkflow_execute hanging (payloadOf (row ''3''))
                     (workflowStart ?w)))"
    by (simp add: leavesLoopState_def PlaceWebsiteScraperWorkflow_execute_def scrapeWebsite_def
          Activity_retry_def scrapeWebsite_execute_def effect_defs world_defs cutOff_def pool_defs
          hanging_def noServices_def agents_ok_def workflowStart_def startWorld_def
          payloadOf_def row_def rejected_def errorHandler_catch_def numeral_2_eq_2)
  have init: "recordsProcessed ?w = 0" "recordsFailed ?w = 0" "recordsTimedOut ?w = 0"
    "placeEntries ?w = [row ''3'']" "processingDuration ?w = []" "clock ?w = 0"
    by (simp_all add: startWorld_def)
  note long = processOneRecord_timed_out
         [where execute = "\<lambda>p. sleep 400000" and w = ?w and r = "row ''3''", OF a b c]
  note hang = processOneRecord_timed_out
         [where execute = scenarioExecute and w = ?w and r = "row ''3''", OF a b e]
  note repo = processOneRecord_timed_out
         [where execute = "PlaceWebsiteScraperWorkflow_execute hanging" and w = ?w
            and r = "row ''3''", OF a b g]
  from long have 1:
    "fst (processOneRecord (\<lambda>p. sleep 400000) ?w) = Success \<lparr>continue = True\<rparr>"
    by blast
  from long d have 2:
    "recordsProcessed (snd (processOneRecord (\<lambda>p. sleep 400000) ?w)) = Suc (recordsProcessed ?w)
     \<and> recordsFailed (snd (processOneRecord (\<lambda>p. sleep 400000) ?w)) = Suc (recordsFailed ?w)
     \<and> recordsTimedOut (snd (processOneRecord (\<lambda>p. sleep 400000) ?w)) = Suc (recordsTimedOut ?w)
     \<and> placeEntries (snd (processOneRecord (\<lambda>p. sleep 400000) ?w)) = placeEntries ?w
     \<and> processingDuration (snd (processOneRecord (\<lambda>p. sleep 400000) ?w))
         = processingDuration ?w @ [300000]"
    by blast
  from long have 3:
    "clock (snd (processOneRecord (\<lambda>p. sleep 400000) ?w)) = clock ?w + 300000 + 3000"
    by blast
  from hang f have 4:
    "recordsTimedOut (snd (processOneRecord scenarioExecute ?w)) = Suc (recordsTimedOut ?w)
     \<and> placeEntries (snd (processOneRecord scenarioExecute ?w)) = placeEntries ?w"
    by blast
  from repo h have 5:
    "recordsTimedOut (snd (processOneRecord (PlaceWebsiteScraperWorkflow_execute hanging) ?w))
       = Suc (recordsTimedOut ?w)
     \<and> placeEntries (snd (processOneRecord (PlaceWebsiteScraperWorkflow_execute hanging) ?w))
       = placeEntries ?w"
    by blast
  from 1 2 3 4 5 show ?thesis
    by (simp add: init)
qed

text \<open>In the scenario the counters after three iterations are not final: the fourth
  iteration claims row 3 again, and it is counted a second time.\<close>

theorem scenario_counterexample:
  "fst (mainProcessingLoop scenarioExecute 4 scenarioWorld) = None
   \<and> recordsProcessed (snd (mainProcessingLoop scenarioExecute 4 scenarioWorld)) = 4
   \<and> recordsFailed (snd (mainProcessingLoop scenarioExecute 4 scenarioWorld)) = 2
   \<and> recordsTimedOut (snd (mainProcessingLoop scenarioExecute 4 scenarioWorld)) = 2"
proof -
  obtain q w4 where run:
    "mainProcessingLoop scenarioExecute (Suc (Suc (Suc (Suc 0)))) scenarioWorld = (q, w4)"
    by (cases "mainProcessingLoop scenarioExecute (Suc (Suc (Suc (Suc 0)))) scenarioWorld")
  from scenario_four [OF run] show ?thesis
    unfolding fuel_4 by (simp add: run)
qed

subsection \<open>Activities\<close>

lemma counted_apply:
  "counted body n (c, s) = (case body n s of (r, s') \<Rightarrow> (r, (Suc c, s')))"
  by (simp add: counted_def)

lemma retryLoop_all_fail:
  assumes "\<forall>k s. \<exists>e s'. body k s = (Failure (Fail e), s')"
  shows "\<exists>e s0 s'. retryLoop noWait ds n (counted body) (c, s)
                      = (Failure (Fail e), (c + length ds + 1, s'))
                  \<and> body (n + length ds) s0 = (Failure (Fail e), s')"
proof (induction ds arbitrary: n c s)
  case Nil
  from assms obtain e s' where "body n s = (Failure (Fail e), s')" by blast
  then show ?case by (auto simp: counted_def)
next
  case (Cons d ds)
  from assms obtain e s' where b: "body n s = (Failure (Fail e), s')" by blast
  from Cons.IH [of "Suc n" "Suc c" s'] show ?case
    by (simp add: counted_def b noWait_def)
qed

lemma retryLoop_success_at:
  assumes "\<forall>j s. j < k \<longrightarrow> (\<exists>e s'. body j s = (Failure (Fail e), s'))"
    and "\<forall>s. \<exists>a s'. body k s = (Success a, s')"
    and "n \<le> k" and "k \<le> n + length ds"
  shows "\<exists>a s0 s'. retryLoop noWait ds n (counted body) (c, s)
                      = (Success a, (c + (k - n) + 1, s'))
                  \<and> body k s0 = (Success a, s')"
  using assms(3,4)
proof (induction ds arbitrary: n c s)
  case Nil
  then have "n = k" by simp
  moreover from assms(2) obtain a s' where "body k s = (Success a, s')" by blast
  ultimately show ?case by (auto simp: counted_def)
next
  case (Cons d ds)
  show ?case
  proof (cases "n = k")
    case True
    from assms(2) obtain a s' where "body k s = (Success a, s')" by blast
    with True show ?thesis by (auto simp: counted_def)
  next
    case False
    with Cons.prems have lt: "n < k" by simp
    with assms(1) obtain e s' where b: "body n s = (Failure (Fail e), s')" by blast
    have "Suc n \<le> k" "k \<le> Suc n + length ds" using lt Cons.prems by simp_all
    from Cons.IH [OF this, of "Suc c" s'] obtain a s0 s'' where
      rest: "retryLoop noWait ds (Suc n) (counted body) (Suc c, s') = (Success a, (Suc c + (k - Suc n) + 1, s''))"
      and last: "body k s0 = (Success a, s'')"
      by blast
    have arith: "Suc c + (k - Suc n) + 1 = c + (k - n) + 1" using lt by simp
    have nw: "noWait d (Suc c, s') = (Suc c, s')" by (simp add: noWait_def)
    have step: "retryLoop noWait (d # ds) n (counted body) (c, s)
                  = retryLoop noWait ds (Suc n) (counted body) (Suc c, s')"
      by (simp only: retryLoop.simps counted_apply b prod.case cause.case exit.case nw)
    show ?thesis
      unfolding step rest arith using last by blast
  qed
qed

text \<open>
  C6 (as amended). For an activity with \<open>Activity.retry({ times: N })\<close>: when its operation
  fails (in the error channel) on every try, the activity fails after exactly \<open>N + 1\<close>
  attempts, the first try and \<open>N\<close> retries, with the error of the last attempt, and never
  tries again; when the operation fails on the tries before the \<open>k\<close>-th and succeeds on the
  \<open>k\<close>-th, with \<open>k \<le> N + 1\<close>, the activity succeeds on attempt \<open>k\<close>. \<open>ScrapeWebsite\<close> has
  \<open>times: 1\<close>, so at most 2 attempts; \<open>syncCrm\<close> has \<open>times: 3\<close>, so at most 4.
\<close>

theorem Activity_retry_attempts:
  "((\<forall>k s. \<exists>e s'. body k s = (Failure (Fail e), s')) \<longrightarrow>
      (\<exists>e s0 s'. Activity_retry N (counted body) (0, s) = (Failure (Fail e), (Suc N, s'))
                \<and> body (Suc N) s0 = (Failure (Fail e), s'))
    \<and> (\<exists>e s'. syncCrm (counted body) (0, s) = (Failure (Fail e), (4, s'))))
   \<and> ((\<forall>j s. j < k \<longrightarrow> (\<exists>e s'. body j s = (Failure (Fail e), s')))
        \<and> (\<forall>s. \<exists>a s'. body k s = (Success a, s')) \<and> 1 \<le> k \<and> k \<le> Suc N \<longrightarrow>
      (\<exists>a s0 s'. Activity_retry N (counted body) (0, s) = (Success a, (k, s'))
                \<and> body k s0 = (Success a, s')))
   \<and> scrapeWebsite env payload = Activity_retry 1 (scrapeWebsite_execute env payload)
   \<and> syncCrm execute = Activity_retry 3 execute"
proof -
  have fails: "\<exists>e s0 s'. Activity_retry M (counted body) (0, s) = (Failure (Fail e), (Suc M, s'))
                \<and> body (Suc M) s0 = (Failure (Fail e), s')"
    if h: "\<forall>k s. \<exists>e s'. body k s = (Failure (Fail e), s')" for M
    using retryLoop_all_fail [OF h, of "recurs M" 1 0 s]
    by (simp add: Activity_retry_def recurs_def)
  have crm: "\<exists>e s'. syncCrm (counted body) (0, s) = (Failure (Fail e), (4, s'))"
    if h: "\<forall>k s. \<exists>e s'. body k s = (Failure (Fail e), s')"
    using fails [OF h, of 3] by (auto simp: syncCrm_def)
  have succeeds: "\<exists>a s0 s'. Activity_retry N (counted body) (0, s) = (Success a, (k, s'))
                \<and> body k s0 = (Success a, s')"
    if h: "\<forall>j s. j < k \<longrightarrow> (\<exists>e s'. body j s = (Failure (Fail e), s'))"
      "\<forall>s. \<exists>a s'. body k s = (Success a, s')" "1 \<le> k" "k \<le> Suc N"
  proof -
    have "k \<le> 1 + length (recurs N)" using h(4) by (simp add: recurs_def)
    from retryLoop_success_at [OF h(1,2,3) this, of 0 s] h(3) show ?thesis
      by (simp add: Activity_retry_def)
  qed
  show ?thesis
    using fails crm succeeds by (simp add: scrapeWebsite_def syncCrm_def)
qed

theorem Activity_retry_attempts_witness:
  "Activity_retry 3 (counted (\<lambda>k. if k < 3 then fail (SyncCrmError ''form not ready'') else succeed ()))
       (0, ())
     = (Success (), (3, ()))
   \<and> syncCrm (counted (\<lambda>k. fail (SyncCrmError ''form not ready''))) (0, ())
     = (Failure (Fail (SyncCrmError ''form not ready'')) :: unit exit, (4, ()))"
proof -
  let ?b = "\<lambda>k :: nat. if k < 3 then fail (SyncCrmError ''form not ready'') else (succeed () :: (unit, unit) effect)"
  let ?f = "\<lambda>k :: nat. (fail (SyncCrmError ''form not ready'') :: (unit, unit) effect)"
  have a: "\<forall>j s. j < 3 \<longrightarrow> (\<exists>e s'. ?b j s = (Failure (Fail e), s'))"
    by (simp add: fail_def)
  have b: "\<forall>s. \<exists>a s'. ?b 3 s = (Success a, s')"
    by (simp add: succeed_def)
  have c: "\<forall>k s. \<exists>e s'. ?f k s = (Failure (Fail e), s')"
    by (simp add: fail_def)
  from Activity_retry_attempts [where body = ?b and k = 3 and N = 3 and s = "()"] a b
  have one: "Activity_retry 3 (counted ?b) (0, ()) = (Success (), (3, ()))"
    by auto
  from Activity_retry_attempts [where body = ?f and N = 3 and s = "()" and execute = "counted ?f"] c
  have two: "syncCrm (counted ?f) (0, ()) = (Failure (Fail (SyncCrmError ''form not ready'')), (4, ()))"
    by (auto simp: fail_def)
  from one two show ?thesis by simp
qed

text \<open>With \<open>times: 1\<close>, an operation that always fails is attempted twice, not once: the
  counter of the runs of the body ends at 2, and \<open>ScrapeWebsite\<close> on a page that cannot be
  reached has started two agents.\<close>

theorem Activity_retry_counterexample:
  "Activity_retry 1 (counted (\<lambda>k. fail (ScrapeWebsiteError ''unreachable''))) (0, ())
     = (Failure (Fail (ScrapeWebsiteError ''unreachable'')) :: unit exit, (2, ()))
   \<and> created (snd (scrapeWebsite unreachable (payloadOf (row ''1'')) (startWorld [row ''1''] []))) = 2"
  by (simp add: Activity_retry_def recurs_def counted_def effect_defs world_defs
        scrapeWebsite_def scrapeWebsite_execute_def scoped_timed_def liftS_def getBrowserAgent_def
        withPermits_def acquireRelease_def agent_start_def created_next_def opened_def
        releaseAgent_def agent_stop_def shut_def unreachable_def noServices_def agents_ok_def
        startWorld_def payloadOf_def row_def rejected_def errorHandler_catch_def
        numeral_2_eq_2)

subsection \<open>The early return of the ScrapeWebsite activity\<close>






subsection \<open>The CRM sync runner and the metrics reporters\<close>

lemma crm_fetchNextRecord_some:
  assumes "find (\<lambda>c. co_crmSyncEvent c = None \<and> co_emailAddress c \<noteq> None) (companies w) = Some r"
  shows "crm_fetchNextRecord w =
           (Success (Some r),
            w\<lparr>logged := logged w @ [Log LevelInfo ''Checking database for next record...'' []]\<rparr>)"
  using assms
  by (simp add: crm_fetchNextRecord_def crm_fetchOnce_def company_findFirst_unsynced_def
        retry_def mapE_def flatMap_def catchTag_def succeed_def empty_backlog_schedule
        logInfo_def logAt_def)

lemma crm_runWorkflow_deadline:
  "deadline (snd (crm_runWorkflow execute r t s)) = deadline s"
proof (cases "co_servicesOffered r = []")
  case True
  then show ?thesis
    by (simp add: crm_runWorkflow_def effect_defs logAt_def logInfo_def now_def
          recordDuration_def company_delete_def placeEntry_update_where_def
          split: option.splits)
next
  case False
  obtain x w2 where run: "execute \<lparr>cp_id = co_id r\<rparr>
       (s\<lparr>logged := logged s @ [Log LevelInfo ''Starting workflow execution...'' []],
            deadline := Some (earliest (deadline s) (clock s + 180000))\<rparr>) = (x, w2)"
    by (cases "execute \<lparr>cp_id = co_id r\<rparr>
       (s\<lparr>logged := logged s @ [Log LevelInfo ''Starting workflow execution...'' []],
            deadline := Some (earliest (deadline s) (clock s + 180000))\<rparr>)")
  show ?thesis
    using False run
    by (simp add: crm_runWorkflow_def effect_defs logAt_def logInfo_def
          logWarning_def logError_def now_def timeout_def recordDuration_def
          company_create_crmSyncEvent_def
          split: option.splits exit.splits cause.splits err.splits if_splits)
qed

text \<open>As in the first runner, an iteration leaves the deadline as it found it.\<close>

lemma crm_processOneRecord_deadline:
  "deadline (snd (crm_processOneRecord execute w)) = deadline w"
proof (cases "find (\<lambda>c. co_crmSyncEvent c = None \<and> co_emailAddress c \<noteq> None) (companies w)")
  case None
  then show ?thesis
    by (simp add: crm_processOneRecord_def crm_fetchNextRecord_def crm_fetchOnce_def
          company_findFirst_unsynced_def empty_backlog_schedule effect_defs logInfo_def
          logAt_def now_def wait_def)
next
  case (Some r)
  define e where "e = (\<lambda>s. fst (crm_runWorkflow execute r (clock w) s))"
  define g where "g = (\<lambda>s. snd (crm_runWorkflow execute r (clock w) s))"
  have run: "crm_runWorkflow execute r (clock w) s = (e s, g s)" for s
    by (simp add: e_def g_def)
  have keep: "deadline (g s) = deadline s" for s
    by (simp add: g_def crm_runWorkflow_deadline)
  show ?thesis
    using Some
    by (simp add: crm_processOneRecord_def effect_defs logAt_def logInfo_def logError_def
          now_def recordDuration_def sleep_def wait_def crm_fetchNextRecord_some run keep
          split: option.splits exit.splits cause.splits)
qed

text \<open>
  C8 (as amended). When the claimed company has no service, the iteration (which runs under
  no timeout itself) counts the record as processed and as skipped, deletes the company,
  records one duration sample, counts no timeout and answers \<open>continue = true\<close>. The workflow
  is not invoked, so no compensation can run: the iteration is the same whatever the
  workflow would do. The place entry that is reset is the one with the name and the url of
  the company: when there is one, its status is set back to null and no failure is counted;
  when there is none, the company is deleted all the same, no place entry is changed, and
  the record is counted as failed.
\<close>

theorem crm_processOneRecord_disqualified:
  assumes "find (\<lambda>c. co_crmSyncEvent c = None \<and> co_emailAddress c \<noteq> None) (companies w) = Some claimed"
    and "co_servicesOffered claimed = []"
    and "find (\<lambda>c. co_id c = co_id claimed) (companies w) = Some claimed"
    and "deadline w = None"
  shows "fst (crm_processOneRecord execute w) = Success \<lparr>continue = True\<rparr>
       \<and> recordsProcessed (snd (crm_processOneRecord execute w)) = Suc (recordsProcessed w)
       \<and> recordsSkipped (snd (crm_processOneRecord execute w)) = Suc (recordsSkipped w)
       \<and> recordsTimedOut (snd (crm_processOneRecord execute w)) = recordsTimedOut w
       \<and> companies (snd (crm_processOneRecord execute w))
           = filter (\<lambda>c. co_id c \<noteq> co_id claimed) (companies w)
       \<and> processingDuration (snd (crm_processOneRecord execute w)) = processingDuration w @ [0]
       \<and> crm_processOneRecord execute w = crm_processOneRecord (\<lambda>p. never) w
       \<and> (find (\<lambda>r. pe_name r = Some (co_name claimed) \<and> pe_url r = co_websiteUrl claimed)
            (placeEntries w) \<noteq> None \<longrightarrow>
            placeEntries (snd (crm_processOneRecord execute w))
              = map (\<lambda>r. if pe_name r = Some (co_name claimed) \<and> pe_url r = co_websiteUrl claimed
                          then r\<lparr>pe_status := None\<rparr> else r) (placeEntries w)
          \<and> recordsFailed (snd (crm_processOneRecord execute w)) = recordsFailed w)
       \<and> (find (\<lambda>r. pe_name r = Some (co_name claimed) \<and> pe_url r = co_websiteUrl claimed)
            (placeEntries w) = None \<longrightarrow>
            placeEntries (snd (crm_processOneRecord execute w)) = placeEntries w
          \<and> recordsFailed (snd (crm_processOneRecord execute w)) = Suc (recordsFailed w))"
proof -
  let ?origin = "find (\<lambda>r. pe_name r = Some (co_name claimed) \<and> pe_url r = co_websiteUrl claimed)
                   (placeEntries w)"
  have none: "co_crmSyncEvent claimed = None"
    using assms(1) by (auto simp: find_Some_iff)
  have there: "\<exists>w'. crm_processOneRecord execute w = (Success \<lparr>continue = True\<rparr>, w')
        \<and> recordsProcessed w' = Suc (recordsProcessed w)
        \<and> recordsSkipped w' = Suc (recordsSkipped w)
        \<and> recordsFailed w' = recordsFailed w
        \<and> recordsTimedOut w' = recordsTimedOut w
        \<and> companies w' = filter (\<lambda>c. co_id c \<noteq> co_id claimed) (companies w)
        \<and> placeEntries w'
            = map (\<lambda>r. if pe_name r = Some (co_name claimed) \<and> pe_url r = co_websiteUrl claimed
                        then r\<lparr>pe_status := None\<rparr> else r) (placeEntries w)
        \<and> processingDuration w' = processingDuration w @ [0]"
    if "?origin = Some origin" for origin
    using assms none that
    by (simp add: crm_processOneRecord_def crm_runWorkflow_def crm_fetchNextRecord_some
          effect_defs world_defs company_delete_def placeEntry_update_where_def)
  have missing: "\<exists>w'. crm_processOneRecord execute w = (Success \<lparr>continue = True\<rparr>, w')
        \<and> recordsProcessed w' = Suc (recordsProcessed w)
        \<and> recordsSkipped w' = Suc (recordsSkipped w)
        \<and> recordsFailed w' = Suc (recordsFailed w)
        \<and> recordsTimedOut w' = recordsTimedOut w
        \<and> companies w' = filter (\<lambda>c. co_id c \<noteq> co_id claimed) (companies w)
        \<and> placeEntries w' = placeEntries w
        \<and> processingDuration w' = processingDuration w @ [0]"
    if "?origin = None"
    using assms none that
    by (simp add: crm_processOneRecord_def crm_runWorkflow_def crm_fetchNextRecord_some
          effect_defs world_defs company_delete_def placeEntry_update_where_def)
  have same: "crm_processOneRecord execute w = crm_processOneRecord (\<lambda>p. never) w"
    using assms(1,2)
    by (simp add: crm_processOneRecord_def crm_runWorkflow_def crm_fetchNextRecord_some
          flatMap_def logInfo_def logAt_def now_def catchAll_def)
  show ?thesis
  proof (cases ?origin)
    case None
    from missing [OF None] same None show ?thesis by auto
  next
    case (Some origin)
    from there [OF Some] same Some show ?thesis by auto
  qed
qed

text \<open>A company whose place entry is in the store, and a company whose place entry is
  not found because it has no name.\<close>

theorem crm_processOneRecord_disqualified_witness:
  "fst (crm_processOneRecord (\<lambda>p. succeed ())
       (startWorld [(row ''1'')\<lparr>pe_status := Some True\<rparr>] [emptyCompany]))
     = Success \<lparr>continue = True\<rparr>
   \<and> companies (snd (crm_processOneRecord (\<lambda>p. succeed ())
       (startWorld [(row ''1'')\<lparr>pe_status := Some True\<rparr>] [emptyCompany]))) = []
   \<and> placeEntries (snd (crm_processOneRecord (\<lambda>p. succeed ())
       (startWorld [(row ''1'')\<lparr>pe_status := Some True\<rparr>] [emptyCompany]))) = [row ''1'']
   \<and> recordsSkipped (snd (crm_processOneRecord (\<lambda>p. succeed ())
       (startWorld [(row ''1'')\<lparr>pe_status := Some True\<rparr>] [emptyCompany]))) = 1
   \<and> recordsFailed (snd (crm_processOneRecord (\<lambda>p. succeed ())
       (startWorld [(row ''1'')\<lparr>pe_status := Some True\<rparr>] [emptyCompany]))) = 0
   \<and> placeEntries (snd (crm_processOneRecord (\<lambda>p. succeed ())
       (startWorld [namelessRow] [defaultNameCompany]))) = [namelessRow]
   \<and> recordsFailed (snd (crm_processOneRecord (\<lambda>p. succeed ())
       (startWorld [namelessRow] [defaultNameCompany]))) = 1"
proof -
  let ?w = "startWorld [(row ''1'')\<lparr>pe_status := Some True\<rparr>] [emptyCompany]"
  let ?v = "startWorld [namelessRow] [defaultNameCompany]"
  have a: "find (\<lambda>c. co_crmSyncEvent c = None \<and> co_emailAddress c \<noteq> None) (companies ?w)
             = Some emptyCompany"
    "find (\<lambda>c. co_crmSyncEvent c = None \<and> co_emailAddress c \<noteq> None) (companies ?v)
             = Some defaultNameCompany"
    by (simp_all add: startWorld_def emptyCompany_def defaultNameCompany_def)
  have b: "co_servicesOffered emptyCompany = []" "co_servicesOffered defaultNameCompany = []"
    by (simp_all add: emptyCompany_def defaultNameCompany_def)
  have c: "find (\<lambda>c. co_id c = co_id emptyCompany) (companies ?w) = Some emptyCompany"
    "find (\<lambda>c. co_id c = co_id defaultNameCompany) (companies ?v) = Some defaultNameCompany"
    by (simp_all add: startWorld_def)
  have d: "deadline ?w = None" "deadline ?v = None"
    by (simp_all add: startWorld_def)
  have e: "filter (\<lambda>c. co_id c \<noteq> co_id emptyCompany) (companies ?w) = []"
    by (simp add: startWorld_def)
  have f: "find (\<lambda>r. pe_name r = Some (co_name emptyCompany) \<and> pe_url r = co_websiteUrl emptyCompany)
             (placeEntries ?w) \<noteq> None"
    by (simp add: startWorld_def emptyCompany_def row_def)
  have f': "map (\<lambda>r. if pe_name r = Some (co_name emptyCompany) \<and> pe_url r = co_websiteUrl emptyCompany
                     then r\<lparr>pe_status := None\<rparr> else r) (placeEntries ?w) = [row ''1'']"
    by (simp add: startWorld_def emptyCompany_def row_def)
  have g: "find (\<lambda>r. pe_name r = Some (co_name defaultNameCompany)
                     \<and> pe_url r = co_websiteUrl defaultNameCompany) (placeEntries ?v) = None"
    by (simp add: startWorld_def namelessRow_def row_def)
  have h: "recordsSkipped ?w = 0" "recordsFailed ?w = 0" "recordsFailed ?v = 0" "placeEntries ?v = [namelessRow]"
    by (simp_all add: startWorld_def)
  note t = crm_processOneRecord_disqualified
         [where execute = "\<lambda>p. succeed ()" and w = ?w and claimed = emptyCompany,
          OF a(1) b(1) c(1) d(1)]
  note u = crm_processOneRecord_disqualified
         [where execute = "\<lambda>p. succeed ()" and w = ?v and claimed = defaultNameCompany,
          OF a(2) b(2) c(2) d(2)]
  from t have 1: "fst (crm_processOneRecord (\<lambda>p. succeed ()) ?w) = Success \<lparr>continue = True\<rparr>"
    by blast
  from t have "companies (snd (crm_processOneRecord (\<lambda>p. succeed ()) ?w))
                 = filter (\<lambda>c. co_id c \<noteq> co_id emptyCompany) (companies ?w)"
    by blast
  then have 2: "companies (snd (crm_processOneRecord (\<lambda>p. succeed ()) ?w)) = []"
    by (simp only: e)
  from t f have "placeEntries (snd (crm_processOneRecord (\<lambda>p. succeed ()) ?w))
                 = map (\<lambda>r. if pe_name r = Some (co_name emptyCompany) \<and> pe_url r = co_websiteUrl emptyCompany
                     then r\<lparr>pe_status := None\<rparr> else r) (placeEntries ?w)"
    by blast
  then have 3: "placeEntries (snd (crm_processOneRecord (\<lambda>p. succeed ()) ?w)) = [row ''1'']"
    by (simp only: f')
  from t have "recordsSkipped (snd (crm_processOneRecord (\<lambda>p. succeed ()) ?w)) = Suc (recordsSkipped ?w)"
    by blast
  then have 4: "recordsSkipped (snd (crm_processOneRecord (\<lambda>p. succeed ()) ?w)) = 1"
    by (simp only: h One_nat_def)
  from t f have "recordsFailed (snd (crm_processOneRecord (\<lambda>p. succeed ()) ?w)) = recordsFailed ?w"
    by blast
  then have 5: "recordsFailed (snd (crm_processOneRecord (\<lambda>p. succeed ()) ?w)) = 0"
    by (simp only: h)
  from u g have "placeEntries (snd (crm_processOneRecord (\<lambda>p. succeed ()) ?v)) = placeEntries ?v"
    by blast
  then have 6: "placeEntries (snd (crm_processOneRecord (\<lambda>p. succeed ()) ?v)) = [namelessRow]"
    by (simp only: h)
  from u g have "recordsFailed (snd (crm_processOneRecord (\<lambda>p. succeed ()) ?v)) = Suc (recordsFailed ?v)"
    by blast
  then have 7: "recordsFailed (snd (crm_processOneRecord (\<lambda>p. succeed ()) ?v)) = 1"
    by (simp only: h One_nat_def)
  from 1 2 3 4 5 6 7 show ?thesis by blast
qed

text \<open>The place entry of the company has no name, and the company is named
  \<open>Default Name\<close>: the company is deleted, the update finds no entry to reset, the entry
  keeps its status true, and the record is counted as failed as well as skipped.\<close>

theorem crm_reset_counterexample:
  "fst (crm_processOneRecord (\<lambda>p. succeed ()) (startWorld [namelessRow] [defaultNameCompany]))
     = Success \<lparr>continue = True\<rparr>
   \<and> companies (snd (crm_processOneRecord (\<lambda>p. succeed ())
       (startWorld [namelessRow] [defaultNameCompany]))) = []
   \<and> map pe_status (placeEntries (snd (crm_processOneRecord (\<lambda>p. succeed ())
       (startWorld [namelessRow] [defaultNameCompany])))) = [Some True]
   \<and> recordsSkipped (snd (crm_processOneRecord (\<lambda>p. succeed ())
       (startWorld [namelessRow] [defaultNameCompany]))) = 1
   \<and> recordsFailed (snd (crm_processOneRecord (\<lambda>p. succeed ())
       (startWorld [namelessRow] [defaultNameCompany]))) = 1"
  by (simp add: crm_processOneRecord_def crm_runWorkflow_def crm_fetchNextRecord_def
        crm_fetchOnce_def company_findFirst_unsynced_def empty_backlog_schedule
        effect_defs world_defs company_delete_def placeEntry_update_where_def
        startWorld_def namelessRow_def defaultNameCompany_def emptyCompany_def row_def)

lemma logMetrics_succeeds:
  "\<exists>w'. logMetrics w = (Success (), w') \<and> length (logged w') = length (logged w) + 9
        \<and> clock w' = clock w
        \<and> Log LevelInfo ''Total Processed: '' [Num (int (recordsProcessed w))] \<in> set (logged w')
        \<and> Log LevelInfo ''Failed: '' [Num (int (recordsFailed w))] \<in> set (logged w')
        \<and> Log LevelInfo ''Timed Out: '' [Num (int (recordsTimedOut w))] \<in> set (logged w')"
  by (simp add: logMetrics_def Let_def flatMap_def logInfo_def logAt_def)

lemma crm_logMetrics_succeeds:
  "\<exists>w'. crm_logMetrics w = (Success (), w') \<and> length (logged w') = length (logged w) + 10
        \<and> clock w' = clock w
        \<and> Log LevelInfo ''Total Processed: '' [Num (int (recordsProcessed w))] \<in> set (logged w')
        \<and> Log LevelInfo ''Failed: '' [Num (int (recordsFailed w))] \<in> set (logged w')
        \<and> Log LevelInfo ''Skipped (no services): '' [Num (int (recordsSkipped w))] \<in> set (logged w')
        \<and> Log LevelInfo ''Timed Out: '' [Num (int (recordsTimedOut w))] \<in> set (logged w')"
  by (simp add: crm_logMetrics_def Let_def flatMap_def logInfo_def logAt_def)

lemma repeatSpaced_running:
  assumes "\<And>s. \<exists>s'. m s = (Success (), s') \<and> length (logged s') = length (logged s) + k
                    \<and> clock s' = clock s"
  shows "\<exists>w'. repeatSpaced n d m w = (None, w') \<and> clock w' = clock w + d * n
             \<and> length (logged w') = length (logged w) + k * n"
proof (induction n arbitrary: w)
  case 0
  show ?case by simp
next
  case (Suc n)
  from assms [of w] obtain s' where
    m: "m w = (Success (), s')" "length (logged s') = length (logged w) + k" "clock s' = clock w"
    by blast
  from Suc.IH [of "wait d s'"] obtain w' where
    "repeatSpaced n d m (wait d s') = (None, w')" "clock w' = clock (wait d s') + d * n"
    "length (logged w') = length (logged (wait d s')) + k * n"
    by blast
  then show ?case
    using m by (simp add: wait_def)
qed

text \<open>
  The reporters taken alone, as one task on the virtual clock. The snapshot of a reporter
  logs all its counters and has no failure, in no state of the counters; so the repetition
  never ends and the handler around it is never run: after every number of cycles the
  reporter is still running, that many snapshots and that many times 30 seconds later.
  That the reporter runs beside the processing loop, and how the two interleave, is not
  expressed by this model of one task.
\<close>

lemma metricsReporter_running:
  "fst (metricsReporter n w) = None
   \<and> clock (snd (metricsReporter n w)) = clock w + 30000 * n
   \<and> length (logged (snd (metricsReporter n w))) = length (logged w) + 9 * n
   \<and> fst (crm_metricsReporter n w) = None
   \<and> clock (snd (crm_metricsReporter n w)) = clock w + 30000 * n
   \<and> length (logged (snd (crm_metricsReporter n w))) = length (logged w) + 10 * n
   \<and> fst (logMetrics w) = Success ()
   \<and> Log LevelInfo ''Total Processed: '' [Num (int (recordsProcessed w))] \<in> set (logged (snd (logMetrics w)))
   \<and> Log LevelInfo ''Failed: '' [Num (int (recordsFailed w))] \<in> set (logged (snd (logMetrics w)))
   \<and> Log LevelInfo ''Timed Out: '' [Num (int (recordsTimedOut w))] \<in> set (logged (snd (logMetrics w)))
   \<and> fst (crm_logMetrics w) = Success ()
   \<and> Log LevelInfo ''Skipped (no services): '' [Num (int (recordsSkipped w))]
        \<in> set (logged (snd (crm_logMetrics w)))"
proof -
  have ws: "\<exists>s'. logMetrics s = (Success (), s') \<and> length (logged s') = length (logged s) + 9
              \<and> clock s' = clock s" for s
    using logMetrics_succeeds [of s] by blast
  have crm: "\<exists>s'. crm_logMetrics s = (Success (), s') \<and> length (logged s') = length (logged s) + 10
              \<and> clock s' = clock s" for s
    using crm_logMetrics_succeeds [of s] by blast
  from repeatSpaced_running [of logMetrics 9 n 30000 w, OF ws]
  have a: "fst (metricsReporter n w) = None
     \<and> clock (snd (metricsReporter n w)) = clock w + 30000 * n
     \<and> length (logged (snd (metricsReporter n w))) = length (logged w) + 9 * n"
    by (auto simp: metricsReporter_def)
  from repeatSpaced_running [of crm_logMetrics 10 n 30000 w, OF crm]
  have b: "fst (crm_metricsReporter n w) = None
     \<and> clock (snd (crm_metricsReporter n w)) = clock w + 30000 * n
     \<and> length (logged (snd (crm_metricsReporter n w))) = length (logged w) + 10 * n"
    by (auto simp: crm_metricsReporter_def)
  have c: "fst (logMetrics w) = Success ()
     \<and> Log LevelInfo ''Total Processed: '' [Num (int (recordsProcessed w))] \<in> set (logged (snd (logMetrics w)))
     \<and> Log LevelInfo ''Failed: '' [Num (int (recordsFailed w))] \<in> set (logged (snd (logMetrics w)))
     \<and> Log LevelInfo ''Timed Out: '' [Num (int (recordsTimedOut w))] \<in> set (logged (snd (logMetrics w)))"
    using logMetrics_succeeds [of w] by auto
  have d: "fst (crm_logMetrics w) = Success ()
     \<and> Log LevelInfo ''Skipped (no services): '' [Num (int (recordsSkipped w))]
        \<in> set (logged (snd (crm_logMetrics w)))"
    using crm_logMetrics_succeeds [of w] by auto
  from a b c d show ?thesis by blast
qed

end
